theory Spec2Isabelle
  imports Complex_Main "HOL-Library.Sublist"
begin

section \<open>The preview renderer of openaddr (src/openaddr/preview.py)\<close>

text \<open>
  A Python float is modelled by the real number it stands for; comparisons, \<open>min\<close>,
  \<open>max\<close>, negation and \<open>int\<close> are exact on it. The arithmetic of floats rounds, and how it
  rounds is not fixed here: addition, subtraction, multiplication, division, \<open>math.sqrt\<close>,
  \<open>math.pow(x, 2)\<close>, \<open>math.log\<close> and the constant \<open>math.pi\<close> are the fields of a record
  \<open>F\<close> that every function doing float arithmetic takes as its first argument. A result
  that rounds to zero is a rounding like any other; \<open>math.pow\<close> raises \<open>OverflowError\<close> on
  a result too large for a float, which is the value \<open>None\<close> of \<open>fpow2\<close>. A theorem stated
  for every \<open>F\<close> holds for the floats of the machine as long as they stay finite; \<open>exact\<close>
  is the arithmetic without rounding. Infinities and NaN are modelled only as results of
  \<open>float(s)\<close>. Python ints are \<^typ>\<open>int\<close>. An exception is a value \<open>Inl e\<close> of a sum
  type; a normal return is \<open>Inr v\<close>.
\<close>

subsection \<open>Exceptions, float arithmetic and builtins\<close>

datatype error =
    ValueError
  | ZeroDivisionError
  | OverflowError
  | KeyError
  | IndexError
  | TypeError
  | AttributeError
  | NotImplementedError
  | UnboundLocalError
  | CairoError string
  | ExternalError string

record float_ops =
  fadd :: "real \<Rightarrow> real \<Rightarrow> real"
  fsub :: "real \<Rightarrow> real \<Rightarrow> real"
  fmul :: "real \<Rightarrow> real \<Rightarrow> real"
  fdiv :: "real \<Rightarrow> real \<Rightarrow> real"
  fsqrt :: "real \<Rightarrow> real"
  fpow2 :: "real \<Rightarrow> real option"
  flog :: "real \<Rightarrow> real"
  fpi :: real

definition exact :: float_ops where
  "exact =
     \<lparr>fadd = (\<lambda>a b. a + b), fsub = (\<lambda>a b. a - b), fmul = (\<lambda>a b. a * b),
      fdiv = (\<lambda>a b. a / b), fsqrt = sqrt, fpow2 = (\<lambda>a. Some (a\<^sup>2)), flog = ln, fpi = pi\<rparr>"

text \<open>
  Rounding to the nearest float keeps the order of results: what the tile grid needs of an
  arithmetic.
\<close>

definition rounds_monotonically :: "float_ops \<Rightarrow> bool" where
  "rounds_monotonically F =
     ((\<forall>a b c. a \<le> b \<longrightarrow> fadd F a c \<le> fadd F b c)
    \<and> (\<forall>a b c. a \<le> b \<longrightarrow> fsub F c b \<le> fsub F c a)
    \<and> (\<forall>a b c. 0 \<le> c \<longrightarrow> a \<le> b \<longrightarrow> fmul F c a \<le> fmul F c b)
    \<and> (\<forall>a b c. 0 < c \<longrightarrow> a \<le> b \<longrightarrow> fdiv F a c \<le> fdiv F b c))"

text \<open>Python's \<open>sum\<close> of floats: from the int \<open>0\<close>, adding from the left.\<close>

definition py_sum :: "float_ops \<Rightarrow> real list \<Rightarrow> real" where
  "py_sum F values = foldl (fadd F) 0 values"

text \<open>Python's \<open>min\<close> and \<open>max\<close> of a sequence: \<open>ValueError\<close> on the empty one.\<close>

fun py_min :: "real list \<Rightarrow> error + real" where
  "py_min [] = Inl ValueError"
| "py_min (v # vs) = Inr (fold min vs v)"

fun py_max :: "real list \<Rightarrow> error + real" where
  "py_max [] = Inl ValueError"
| "py_max (v # vs) = Inr (fold max vs v)"

text \<open>Python's \<open>int(x)\<close> on a float: truncation toward zero.\<close>

definition py_int :: "real \<Rightarrow> int" where
  "py_int v = (if 0 \<le> v then \<lfloor>v\<rfloor> else \<lceil>v\<rceil>)"

text \<open>Python's \<open>range(a, b)\<close> on ints.\<close>

definition py_range :: "int \<Rightarrow> int \<Rightarrow> int list" where
  "py_range a b = [a .. b - 1]"

text \<open>Python 3's \<open>round(x)\<close> on a float: the nearest int, a tie going to the even one.\<close>

definition py_round :: "real \<Rightarrow> int" where
  "py_round v =
     (let f = \<lfloor>v\<rfloor>; d = v - real_of_int f in
      if d < 1 / 2 then f
      else if 1 / 2 < d then f + 1
      else if even f then f else f + 1)"

subsection \<open>\<open>iterate_file_points\<close>\<close>

text \<open>
  What \<open>float(s)\<close> returns: a finite number, an infinity or NaN (the strings \<open>inf\<close> and
  \<open>nan\<close> parse). The parser itself is Python's: it is a parameter \<open>pf\<close> of the model,
  \<open>None\<close> where \<open>float\<close> raises \<open>ValueError\<close>.
\<close>

datatype pyfloat = Finite real | PosInf | NegInf | NaN

type_synonym float_parser = "string \<Rightarrow> pyfloat option"

text \<open>
  A row of \<open>csv.DictReader\<close>: a dict from column names to cells; the cell of a column that
  a short row lacks is Python's \<open>None\<close> (the inner \<open>None\<close> here), and a column that the
  header lacks is no key at all.
\<close>

type_synonym row = "string \<rightharpoonup> string option"

text \<open>
  \<open>float(row[col])\<close>: \<open>KeyError\<close> on a missing key, \<open>TypeError\<close> on \<open>None\<close>,
  \<open>ValueError\<close> on a string that is no number.
\<close>

definition float_cell :: "float_parser \<Rightarrow> row \<Rightarrow> string \<Rightarrow> error + pyfloat" where
  "float_cell pf r col =
     (case r col of
        None \<Rightarrow> Inl KeyError
      | Some None \<Rightarrow> Inl TypeError
      | Some (Some s) \<Rightarrow> (case pf s of None \<Rightarrow> Inl ValueError | Some v \<Rightarrow> Inr v))"

text \<open>The chained comparison \<open>lo <= v <= hi\<close> on a float: false on NaN and on the infinities.\<close>

fun between :: "real \<Rightarrow> pyfloat \<Rightarrow> real \<Rightarrow> bool" where
  "between lo (Finite v) hi = (lo \<le> v \<and> v \<le> hi)"
| "between lo _ hi = False"

fun float_value :: "pyfloat \<Rightarrow> real" where
  "float_value (Finite v) = v"
| "float_value _ = 0"

text \<open>
  The loop over the rows. The bare \<open>except: continue\<close> turns every exception of the two
  \<open>float\<close> calls into skipping the row; a row out of range is skipped by the \<open>if\<close>.
\<close>

fun iterate_rows :: "float_parser \<Rightarrow> row list \<Rightarrow> (real \<times> real) list" where
  "iterate_rows pf [] = []"
| "iterate_rows pf (r # rows) =
     (case float_cell pf r ''LON'' of
        Inl e \<Rightarrow> iterate_rows pf rows
      | Inr lon \<Rightarrow>
          (case float_cell pf r ''LAT'' of
             Inl e \<Rightarrow> iterate_rows pf rows
           | Inr lat \<Rightarrow>
               if between (- 180) lon 180 \<and> between (- 90) lat 90
               then (float_value lon, float_value lat) # iterate_rows pf rows
               else iterate_rows pf rows))"

text \<open>
  The file around the loop. What the file system and the \<open>zipfile\<close> and \<open>csv\<close> modules
  give is taken as it comes: \<open>as_csv\<close> is the outcome of opening the file as text and
  reading it with \<open>DictReader\<close>, \<open>as_zip\<close> the outcome of opening it as an archive, the
  list of its entries in the order of \<open>namelist()\<close>, each a name and the rows \<open>DictReader\<close>
  reads from it. The argument \<open>suffix'\<close> is \<open>os.path.splitext(filename)[1].lower()\<close>. A CSV
  file is read as it is. Of a zip archive the first name ending in \<open>.csv\<close> is taken
  (\<open>IndexError\<close> when there is none) and the entry is opened by that name: where several
  entries have the name, \<open>zip.open\<close> gives the last of them. With any other suffix
  \<open>open_file\<close> was never assigned.
\<close>

record source_file =
  as_csv :: "error + row list"
  as_zip :: "error + (string \<times> row list) list"

definition zip_open :: "(string \<times> row list) list \<Rightarrow> string \<Rightarrow> error + row list" where
  "zip_open entries name =
     (case map_of (rev entries) name of None \<Rightarrow> Inl KeyError | Some rows \<Rightarrow> Inr rows)"

definition iterate_file_points :: "float_parser \<Rightarrow> string \<Rightarrow> source_file \<Rightarrow> error + (real \<times> real) list" where
  "iterate_file_points pf suffix' file =
     (if suffix' = ''.csv'' then
        (case as_csv file of Inl e \<Rightarrow> Inl e | Inr rows \<Rightarrow> Inr (iterate_rows pf rows))
      else if suffix' = ''.zip'' then
        (case as_zip file of
           Inl e \<Rightarrow> Inl e
         | Inr entries \<Rightarrow>
             (case filter (\<lambda>name. suffix ''.csv'' name) (map fst entries) of
                [] \<Rightarrow> Inl IndexError
              | name # _ \<Rightarrow>
                  (case zip_open entries name of
                     Inl e \<Rightarrow> Inl e
                   | Inr rows \<Rightarrow> Inr (iterate_rows pf rows))))
      else Inl UnboundLocalError)"

subsection \<open>The valid rows as the specification words them\<close>

text \<open>
  A column parses as a number when the row has a cell for it and \<open>float\<close> accepts the cell;
  a row is valid when \<open>LON\<close> and \<open>LAT\<close> both parse and lie in \<open>[-180, 180]\<close> and
  \<open>[-90, 90]\<close>.
\<close>

definition parsed :: "float_parser \<Rightarrow> row \<Rightarrow> string \<Rightarrow> pyfloat option" where
  "parsed pf r col = (case r col of Some (Some s) \<Rightarrow> pf s | _ \<Rightarrow> None)"

definition valid_row :: "float_parser \<Rightarrow> row \<Rightarrow> bool" where
  "valid_row pf r =
     (case (parsed pf r ''LON'', parsed pf r ''LAT'') of
        (Some lon, Some lat) \<Rightarrow> between (- 180) lon 180 \<and> between (- 90) lat 90
      | _ \<Rightarrow> False)"

definition row_point :: "float_parser \<Rightarrow> row \<Rightarrow> real \<times> real" where
  "row_point pf r =
     (float_value (the (parsed pf r ''LON'')), float_value (the (parsed pf r ''LAT'')))"

subsection \<open>\<open>stats\<close> and \<open>calculate_bounds\<close>\<close>

text \<open>
  \<open>mean = sum(values) / len(values)\<close>, the deviations squared by \<open>math.pow\<close>, then the
  root of their mean. The division raises \<open>ZeroDivisionError\<close> on an empty sequence,
  \<open>math.pow\<close> raises \<open>OverflowError\<close> on a square too large for a float (\<open>those\<close> is
  \<open>None\<close> when one of the squares is), \<open>math.sqrt\<close> raises \<open>ValueError\<close> on a negative
  number.
\<close>

definition stats :: "float_ops \<Rightarrow> real list \<Rightarrow> error + (real \<times> real)" where
  "stats F values =
     (if length values = 0 then Inl ZeroDivisionError
      else
        let mean = fdiv F (py_sum F values) (real (length values)) in
       (case those (map (\<lambda>val. fpow2 F (fsub F val mean)) values) of
          None \<Rightarrow> Inl OverflowError
        | Some deviations \<Rightarrow>
            let v = fdiv F (py_sum F deviations) (real (length values))
            in if v < 0 then Inl ValueError
               else Inr (mean, fsqrt F v)))"

text \<open>
  \<open>xs, ys = zip(*points)\<close> raises \<open>ValueError\<close> on an empty list (nothing to unpack).
  The four sides are padded with the width and height computed before any side moves.
  The source's \<open>top\<close> is written \<open>top'\<close> (\<open>top\<close> is a constant of HOL).
\<close>

definition calculate_bounds ::
  "float_ops \<Rightarrow> (real \<times> real) list \<Rightarrow> error + (real \<times> real \<times> real \<times> real)" where
  "calculate_bounds F points =
     (if points = [] then Inl ValueError
      else
        let xs = map fst points; ys = map snd points in
       (case stats F xs of Inl e \<Rightarrow> Inl e | Inr (xmean, xsdev) \<Rightarrow>
       (case stats F ys of Inl e \<Rightarrow> Inl e | Inr (ymean, ysdev) \<Rightarrow>
        let xmin = fsub F xmean (fmul F 5 xsdev); xmax = fadd F xmean (fmul F 5 xsdev);
            ymin = fsub F ymean (fmul F 3 ysdev); ymax = fadd F ymean (fmul F 3 ysdev);
            okay_xs = map fst (filter (\<lambda>(x, y). xmin \<le> x \<and> x \<le> xmax) points);
            okay_ys = map snd (filter (\<lambda>(x, y). ymin \<le> y \<and> y \<le> ymax) points) in
       (case py_min okay_xs of Inl e \<Rightarrow> Inl e | Inr left \<Rightarrow>
       (case py_min okay_ys of Inl e \<Rightarrow> Inl e | Inr bottom \<Rightarrow>
       (case py_max okay_xs of Inl e \<Rightarrow> Inl e | Inr right \<Rightarrow>
       (case py_max okay_ys of Inl e \<Rightarrow> Inl e | Inr top' \<Rightarrow>
        let width = fsub F right left; height = fsub F top' bottom in
        Inr (fsub F left (fdiv F width 50), fsub F bottom (fdiv F height 50),
             fadd F right (fdiv F width 50), fadd F top' (fdiv F height 50)))))))))"

text \<open>
  The two filtered lists \<open>okay_xs\<close> and \<open>okay_ys\<close> of \<open>calculate_bounds\<close>, named so that
  they can be spoken about: each keeps the coordinates of one axis that lie within the
  candidate range of that axis, whatever the other coordinate is.
\<close>

definition okay_xs :: "float_ops \<Rightarrow> (real \<times> real) list \<Rightarrow> real list" where
  "okay_xs F points =
     (case stats F (map fst points) of
        Inl e \<Rightarrow> []
      | Inr (xmean, xsdev) \<Rightarrow>
          map fst (filter (\<lambda>(x, y). fsub F xmean (fmul F 5 xsdev) \<le> x
                                     \<and> x \<le> fadd F xmean (fmul F 5 xsdev)) points))"

definition okay_ys :: "float_ops \<Rightarrow> (real \<times> real) list \<Rightarrow> real list" where
  "okay_ys F points =
     (case stats F (map snd points) of
        Inl e \<Rightarrow> []
      | Inr (ymean, ysdev) \<Rightarrow>
          map snd (filter (\<lambda>(x, y). fsub F ymean (fmul F 3 ysdev) \<le> y
                                     \<and> y \<le> fadd F ymean (fmul F 3 ysdev)) points))"

subsection \<open>The bounds as the specification words them\<close>

text \<open>
  Per-axis mean and population standard deviation (the root of the mean squared
  deviation); the values of each axis within \<open>k\<close> deviations of the mean (5 for x, 3 for
  y), each axis on its own; the least and the greatest survivor; every side moved outwards
  by 2 percent of the width or height, a fiftieth. The arithmetic is that of \<open>F\<close>.
  The procedure has a result when the deviation of each axis can be taken (every squared
  deviation is a float and their mean is not negative) and a value survives on each axis.
\<close>

definition mean :: "float_ops \<Rightarrow> real list \<Rightarrow> real" where
  "mean F vs = fdiv F (py_sum F vs) (real (length vs))"

definition squares :: "float_ops \<Rightarrow> real list \<Rightarrow> real option list" where
  "squares F vs = map (\<lambda>v. fpow2 F (fsub F v (mean F vs))) vs"

definition variance :: "float_ops \<Rightarrow> real list \<Rightarrow> real" where
  "variance F vs = fdiv F (py_sum F (map the (squares F vs))) (real (length vs))"

definition has_deviation :: "float_ops \<Rightarrow> real list \<Rightarrow> bool" where
  "has_deviation F vs = (None \<notin> set (squares F vs) \<and> 0 \<le> variance F vs)"

definition population_sd :: "float_ops \<Rightarrow> real list \<Rightarrow> real" where
  "population_sd F vs = fsqrt F (variance F vs)"

definition within_sd :: "float_ops \<Rightarrow> real \<Rightarrow> real list \<Rightarrow> real list" where
  "within_sd F k vs =
     filter (\<lambda>v. fsub F (mean F vs) (fmul F k (population_sd F vs)) \<le> v
               \<and> v \<le> fadd F (mean F vs) (fmul F k (population_sd F vs))) vs"

definition has_bounds :: "float_ops \<Rightarrow> (real \<times> real) list \<Rightarrow> bool" where
  "has_bounds F points =
     (has_deviation F (map fst points) \<and> has_deviation F (map snd points)
      \<and> within_sd F 5 (map fst points) \<noteq> [] \<and> within_sd F 3 (map snd points) \<noteq> [])"

definition spec_bounds :: "float_ops \<Rightarrow> (real \<times> real) list \<Rightarrow> real \<times> real \<times> real \<times> real" where
  "spec_bounds F points =
     (let kept_x = within_sd F 5 (map fst points);
          kept_y = within_sd F 3 (map snd points);
          x0 = Min (set kept_x); x1 = Max (set kept_x);
          y0 = Min (set kept_y); y1 = Max (set kept_y);
          w = fsub F x1 x0; h = fsub F y1 y0
      in (fsub F x0 (fdiv F w 50), fsub F y0 (fdiv F h 50),
          fadd F x1 (fdiv F w 50), fadd F y1 (fdiv F h 50)))"

subsection \<open>Cairo\<close>

text \<open>
  The drawing calls made on a Cairo context; a context is the list of the calls made on
  it so far, in order. A surface written out is an image: its size in pixels and its
  drawing.
\<close>

type_synonym point = "real \<times> real"

datatype draw_op =
    Scale real real
  | Translate real real
  | SetSourceRgb real real real
  | SetLineWidth real
  | Rectangle real real real real
  | MoveTo point
  | LineTo point
  | Arc real real real real real
  | Fill
  | Stroke

type_synonym cairo_context = "draw_op list"

record image =
  pixel_width :: int
  pixel_height :: int
  drawing :: cairo_context

text \<open>
  What \<open>surface.write_to_png(name)\<close> does is Cairo's: it returns, or it raises before
  the file is opened, or it raises after the file was opened for writing, which leaves the
  file as far as it was written.
\<close>

datatype write_outcome = Written | OpenFailed string | WriteFailed string

text \<open>
  Cairo is a parameter of the model. \<open>create_surface\<close> is
  \<open>cairo.ImageSurface(FORMAT_ARGB32, w, h)\<close> followed by \<open>cairo.Context(surface)\<close>: the
  message of the exception raised, if any. \<open>draw ctx op\<close> is the message of the exception
  that the call \<open>op\<close> raises on a context with the calls \<open>ctx\<close> behind it, if any.
\<close>

record cairo =
  create_surface :: "int \<Rightarrow> int \<Rightarrow> string option"
  draw :: "cairo_context \<Rightarrow> draw_op \<Rightarrow> string option"
  write_to_png :: "string \<Rightarrow> image \<Rightarrow> write_outcome"

definition cairo_call :: "cairo \<Rightarrow> cairo_context \<Rightarrow> draw_op \<Rightarrow> error + cairo_context" where
  "cairo_call C ctx op =
     (case draw C ctx op of Some msg \<Rightarrow> Inl (CairoError msg) | None \<Rightarrow> Inr (ctx @ [op]))"

text \<open>Calls one after the other, up to the first that raises.\<close>

fun cairo_calls :: "cairo \<Rightarrow> cairo_context \<Rightarrow> draw_op list \<Rightarrow> error + cairo_context" where
  "cairo_calls C ctx [] = Inr ctx"
| "cairo_calls C ctx (op # ops) =
     (case cairo_call C ctx op of
        Inl e \<Rightarrow> Inl e
      | Inr ctx1 \<Rightarrow> cairo_calls C ctx1 ops)"

subsection \<open>\<open>make_context\<close>\<close>

text \<open>
  The surface is \<open>hsize\<close> by \<open>vsize\<close> pixels; the context \<open>cr\<close> has the scale and the
  translation behind it. \<open>width\<close> and \<open>resolution\<close> are the ints of the command line, so
  \<open>int(resolution * width)\<close> is the product itself. Each division by a float zero raises
  \<open>ZeroDivisionError\<close>.
\<close>

record canvas =
  hsize :: int
  vsize :: int
  hscale :: real
  vscale :: real
  hoffset :: real
  voffset :: real
  cr :: cairo_context

definition make_context ::
  "float_ops \<Rightarrow> cairo \<Rightarrow> real \<Rightarrow> real \<Rightarrow> real \<Rightarrow> real \<Rightarrow> int \<Rightarrow> int \<Rightarrow> error + canvas" where
  "make_context F C left bottom right top' width resolution =
     (if fsub F top' bottom = 0 then Inl ZeroDivisionError
      else
        let aspect = fdiv F (fsub F right left) (fsub F top' bottom);
            hsz = resolution * width in
        if aspect = 0 then Inl ZeroDivisionError
        else
          let vsz = py_int (fdiv F (real_of_int hsz) aspect) in
          if fsub F right left = 0 then Inl ZeroDivisionError
          else
            let hsc = fdiv F (real_of_int hsz) (fsub F right left) in
            if fsub F bottom top' = 0 then Inl ZeroDivisionError
            else
              let vsc = fdiv F (fdiv F (real_of_int hsz) aspect) (fsub F bottom top') in
             (case create_surface C hsz vsz of
                Some msg \<Rightarrow> Inl (CairoError msg)
              | None \<Rightarrow>
                 (case cairo_calls C [] [Scale hsc vsc, Translate (- left) (- top')] of
                    Inl e \<Rightarrow> Inl e
                  | Inr cx \<Rightarrow>
                      Inr \<lparr>hsize = hsz, vsize = vsz, hscale = hsc, vscale = vsc,
                           hoffset = - left, voffset = - top', cr = cx\<rparr>)))"

subsection \<open>Zoom and the tile grid\<close>

text \<open>\<open>6378137 * 2 * pi\<close>: the product of the two ints, times the float.\<close>

definition EARTH_DIAMETER :: "float_ops \<Rightarrow> real" where
  "EARTH_DIAMETER F = fmul F 12756274 (fpi F)"

text \<open>
  \<open>math.log\<close> raises \<open>ValueError\<close> on an argument that is not positive, the float
  division \<open>ZeroDivisionError\<close> on a zero divisor. \<open>resolution * 256\<close> is a product of
  ints.
\<close>

definition calculate_zoom :: "float_ops \<Rightarrow> real \<Rightarrow> int \<Rightarrow> error + real" where
  "calculate_zoom F scale' resolution =
     (let scale_at_zero = fdiv F (real_of_int (resolution * 256)) (EARTH_DIAMETER F) in
      if scale_at_zero = 0 then Inl ZeroDivisionError
      else if fdiv F scale' scale_at_zero \<le> 0 then Inl ValueError
      else Inr (fdiv F (flog F (fdiv F scale' scale_at_zero)) (flog F 2)))"

text \<open>
  The four scaled coordinates of \<open>get_map_features\<close> and its \<open>row_cols\<close>, the product of
  the row range and the column range, rows outermost. \<open>2**zoom\<close> with an int \<open>zoom\<close> is
  \<open>2 powi zoom\<close>, a power of two without rounding.
\<close>

definition row_cols ::
  "float_ops \<Rightarrow> real \<Rightarrow> real \<Rightarrow> real \<Rightarrow> real \<Rightarrow> int \<Rightarrow> (int \<times> int) list" where
  "row_cols F xmin ymin xmax ymax zoom =
     (let mincol = fdiv F (fmul F (2 powi zoom) (fadd F xmin (fdiv F (EARTH_DIAMETER F) 2)))
                          (EARTH_DIAMETER F);
          minrow = fdiv F (fmul F (2 powi zoom) (fsub F (fdiv F (EARTH_DIAMETER F) 2) ymax))
                          (EARTH_DIAMETER F);
          maxcol = fdiv F (fmul F (2 powi zoom) (fadd F xmax (fdiv F (EARTH_DIAMETER F) 2)))
                          (EARTH_DIAMETER F);
          maxrow = fdiv F (fmul F (2 powi zoom) (fsub F (fdiv F (EARTH_DIAMETER F) 2) ymin))
                          (EARTH_DIAMETER F)
      in List.product (py_range (py_int minrow) (py_int maxrow + 1))
                      (py_range (py_int mincol) (py_int maxcol + 1)))"

subsection \<open>Tiles, features and geometries\<close>

text \<open>
  A JSON value of a feature's \<open>properties\<close>. A tile's feature has a \<open>geometry\<close> object with
  its \<open>type\<close> string and its coordinates (of any type \<open>'c\<close>: only the library reads them)
  and a \<open>properties\<close> dict. A tile has the three collections; a collection that the JSON
  lacks (a \<open>KeyError\<close> on \<open>['landuse']\<close> or \<open>['features']\<close>) is \<open>None\<close>.
\<close>

datatype jvalue =
    JString string
  | JNumber real
  | JBool bool
  | JNull
  | JArray "jvalue list"
  | JObject "(string \<times> jvalue) list"

record 'c json_geometry =
  gtype :: string
  coordinates :: 'c

record 'c feature =
  geometry :: "'c json_geometry"
  properties :: "string \<rightharpoonup> jvalue"

record 'c tile =
  landuse :: "'c feature list option"
  water :: "'c feature list option"
  roads :: "'c feature list option"

text \<open>
  A geometry of the library, in two dimensions, and what \<open>GetGeometryType\<close> says of it.
\<close>

datatype geom =
    Point point
  | LineString "point list"
  | Polygon "point list list"
  | MultiPoint "point list"
  | MultiLineString "point list list"
  | MultiPolygon "point list list list"
  | GeometryCollection "geom list"

datatype wkb_type =
    wkbPoint
  | wkbLineString
  | wkbPolygon
  | wkbMultiPoint
  | wkbMultiLineString
  | wkbMultiPolygon
  | wkbGeometryCollection

fun GetGeometryType :: "geom \<Rightarrow> wkb_type" where
  "GetGeometryType (Point p) = wkbPoint"
| "GetGeometryType (LineString ps) = wkbLineString"
| "GetGeometryType (Polygon rs) = wkbPolygon"
| "GetGeometryType (MultiPoint ps) = wkbMultiPoint"
| "GetGeometryType (MultiLineString ls) = wkbMultiLineString"
| "GetGeometryType (MultiPolygon gs) = wkbMultiPolygon"
| "GetGeometryType (GeometryCollection gs) = wkbGeometryCollection"

text \<open>
  The library and the network, as the code meets them: parameters of the model.
  \<open>CreateGeometryFromJson\<close> gives \<open>None\<close> as the library does on JSON it cannot read;
  \<open>Transform\<close> projects a geometry or raises; \<open>Buffer\<close> gives the rings of the polygon around a point;
  \<open>fetch_tile\<close> is \<open>requests.get(url)\<close> and the reading of the body as JSON, on the URL
  given by zoom, column, row and API key.
\<close>

type_synonym tile_request = "int \<times> int \<times> int \<times> string option"

record 'c library =
  CreateGeometryFromJson :: "'c json_geometry \<Rightarrow> geom option"
  Transform :: "geom \<Rightarrow> error + geom"
  Buffer :: "point \<Rightarrow> real \<Rightarrow> nat \<Rightarrow> point list list"
  fetch_tile :: "tile_request \<Rightarrow> error + 'c tile"

text \<open>
  The local function \<open>projected_geom\<close>: calling \<open>Transform\<close> on \<open>None\<close> is an
  \<open>AttributeError\<close>.
\<close>

definition projected_geom :: "'c library \<Rightarrow> 'c feature \<Rightarrow> error + geom" where
  "projected_geom lib feature' =
     (case CreateGeometryFromJson lib (geometry feature') of
        None \<Rightarrow> Inl AttributeError
      | Some g \<Rightarrow> Transform lib g)"
subsection \<open>\<open>get_map_features\<close>\<close>

text \<open>
  \<open>v in ('a', 'b', ...)\<close> for a JSON value \<open>v\<close> (or the \<open>None\<close> that \<open>.get\<close> returns, the
  outer \<open>None\<close> here) and a tuple of strings: only an equal string is in it.
\<close>

definition py_in :: "jvalue option \<Rightarrow> string list \<Rightarrow> bool" where
  "py_in v strs = (case v of Some (JString s) \<Rightarrow> s \<in> set strs | _ \<Rightarrow> False)"

definition LANDUSE_KINDS :: "string list" where
  "LANDUSE_KINDS = [''cemetery'', ''forest'', ''golf_course'', ''grave_yard'', ''meadow'',
                    ''park'', ''pitch'', ''wood'']"

definition WATER_KINDS :: "string list" where
  "WATER_KINDS = [''basin'', ''lake'', ''ocean'', ''riverbank'', ''water'']"

definition ROADS_KINDS :: "string list" where
  "ROADS_KINDS = [''highway'', ''major_road'', ''minor_road'', ''rail'', ''path'']"

text \<open>
  The three inner loops, each appending to its list. \<open>'Polygon' in s\<close> is the substring
  test \<^const>\<open>sublist\<close>. The landuse loop reads the kind with \<open>.get('kind')\<close>, the water and
  roads loops with \<open>['kind']\<close>, a \<open>KeyError\<close> when the key is missing.
\<close>

fun landuse_loop :: "'c library \<Rightarrow> 'c feature list \<Rightarrow> geom list \<Rightarrow> error + geom list" where
  "landuse_loop lib [] landuse_geoms = Inr landuse_geoms"
| "landuse_loop lib (feature' # rest) landuse_geoms =
     (if sublist ''Polygon'' (gtype (geometry feature')) then
        if py_in (properties feature' ''kind'') LANDUSE_KINDS then
          (case projected_geom lib feature' of
             Inl e \<Rightarrow> Inl e
           | Inr g \<Rightarrow> landuse_loop lib rest (landuse_geoms @ [g]))
        else landuse_loop lib rest landuse_geoms
      else landuse_loop lib rest landuse_geoms)"

fun water_loop :: "'c library \<Rightarrow> 'c feature list \<Rightarrow> geom list \<Rightarrow> error + geom list" where
  "water_loop lib [] water_geoms = Inr water_geoms"
| "water_loop lib (feature' # rest) water_geoms =
     (if sublist ''Polygon'' (gtype (geometry feature')) then
        (case properties feature' ''kind'' of
           None \<Rightarrow> Inl KeyError
         | Some kind \<Rightarrow>
             if py_in (Some kind) WATER_KINDS then
               (case projected_geom lib feature' of
                  Inl e \<Rightarrow> Inl e
                | Inr g \<Rightarrow> water_loop lib rest (water_geoms @ [g]))
             else water_loop lib rest water_geoms)
      else water_loop lib rest water_geoms)"

fun roads_loop :: "'c library \<Rightarrow> 'c feature list \<Rightarrow> geom list \<Rightarrow> error + geom list" where
  "roads_loop lib [] roads_geoms = Inr roads_geoms"
| "roads_loop lib (feature' # rest) roads_geoms =
     (if sublist ''LineString'' (gtype (geometry feature')) then
        (case properties feature' ''kind'' of
           None \<Rightarrow> Inl KeyError
         | Some kind \<Rightarrow>
             if py_in (Some kind) ROADS_KINDS then
               (case projected_geom lib feature' of
                  Inl e \<Rightarrow> Inl e
                | Inr g \<Rightarrow> roads_loop lib rest (roads_geoms @ [g]))
             else roads_loop lib rest roads_geoms)
      else roads_loop lib rest roads_geoms)"

text \<open>The body of the loop over the tiles, once the tile is fetched.\<close>

type_synonym layers = "geom list \<times> geom list \<times> geom list"

definition tile_features :: "'c library \<Rightarrow> 'c tile \<Rightarrow> layers \<Rightarrow> error + layers" where
  "tile_features lib got = (\<lambda>(landuse_geoms, water_geoms, roads_geoms).
    (case landuse got of None \<Rightarrow> Inl KeyError | Some fs1 \<Rightarrow>
    (case landuse_loop lib fs1 landuse_geoms of Inl e \<Rightarrow> Inl e | Inr landuse_geoms' \<Rightarrow>
    (case water got of None \<Rightarrow> Inl KeyError | Some fs2 \<Rightarrow>
    (case water_loop lib fs2 water_geoms of Inl e \<Rightarrow> Inl e | Inr water_geoms' \<Rightarrow>
    (case roads got of None \<Rightarrow> Inl KeyError | Some fs3 \<Rightarrow>
    (case roads_loop lib fs3 roads_geoms of Inl e \<Rightarrow> Inl e | Inr roads_geoms' \<Rightarrow>
     Inr (landuse_geoms', water_geoms', roads_geoms'))))))))"

text \<open>
  The loop over \<open>row_cols\<close>. Beside its outcome it returns the requests it has made, in
  order: one \<open>requests.get\<close> for each tile reached, none after an exception.
\<close>

fun tiles_loop ::
  "'c library \<Rightarrow> int \<Rightarrow> string option \<Rightarrow> (int \<times> int) list \<Rightarrow> layers
     \<Rightarrow> (error + layers) \<times> tile_request list" where
  "tiles_loop lib zoom mapzen_key [] acc = (Inr acc, [])"
| "tiles_loop lib zoom mapzen_key ((row, col) # rest) acc =
     (let url = (zoom, col, row, mapzen_key) in
      case fetch_tile lib url of
        Inl e \<Rightarrow> (Inl e, [url])
      | Inr got \<Rightarrow>
          (case tile_features lib got acc of
             Inl e \<Rightarrow> (Inl e, [url])
           | Inr acc' \<Rightarrow>
               (case tiles_loop lib zoom mapzen_key rest acc' of
                  (outcome, urls) \<Rightarrow> (outcome, url # urls))))"

definition get_map_features ::
  "float_ops \<Rightarrow> 'c library \<Rightarrow> real \<Rightarrow> real \<Rightarrow> real \<Rightarrow> real \<Rightarrow> int \<Rightarrow> real \<Rightarrow> string option
     \<Rightarrow> (error + layers) \<times> tile_request list" where
  "get_map_features F lib xmin ymin xmax ymax resolution scale' mapzen_key =
     (case calculate_zoom F scale' resolution of
        Inl e \<Rightarrow> (Inl e, [])
      | Inr z \<Rightarrow>
          let zoom = py_round z in
          tiles_loop lib zoom mapzen_key (row_cols F xmin ymin xmax ymax zoom) ([], [], []))"

subsection \<open>The layers as the specification words them\<close>

text \<open>
  The table of the classifier: for each layer the string its geometry type must contain
  and its allow-list of kinds. A feature is accepted into a layer when it passes both the
  geometry-type test and the kind test.
\<close>

datatype layer = Landuse | Water | Roads

fun type_contains :: "layer \<Rightarrow> string" where
  "type_contains Landuse = ''Polygon''"
| "type_contains Water = ''Polygon''"
| "type_contains Roads = ''LineString''"

fun allow_list :: "layer \<Rightarrow> string list" where
  "allow_list Landuse = [''cemetery'', ''forest'', ''golf_course'', ''grave_yard'', ''meadow'',
                         ''park'', ''pitch'', ''wood'']"
| "allow_list Water = [''basin'', ''lake'', ''ocean'', ''riverbank'', ''water'']"
| "allow_list Roads = [''highway'', ''major_road'', ''minor_road'', ''rail'', ''path'']"

definition geometry_type_test :: "layer \<Rightarrow> 'c feature \<Rightarrow> bool" where
  "geometry_type_test l f = sublist (type_contains l) (gtype (geometry f))"

definition kind_test :: "layer \<Rightarrow> 'c feature \<Rightarrow> bool" where
  "kind_test l f =
     (case properties f ''kind'' of
        Some (JString k) \<Rightarrow> k \<in> set (allow_list l)
      | _ \<Rightarrow> False)"

definition accepted :: "layer \<Rightarrow> 'c feature \<Rightarrow> bool" where
  "accepted l f = (geometry_type_test l f \<and> kind_test l f)"

text \<open>
  The features of one collection in the tiles that the given requests fetched, in fetch
  order.
\<close>

definition fetched_features ::
  "'c library \<Rightarrow> ('c tile \<Rightarrow> 'c feature list option) \<Rightarrow> tile_request list \<Rightarrow> 'c feature list" where
  "fetched_features lib collection urls =
     concat (map (\<lambda>url. case fetch_tile lib url of
                            Inl e \<Rightarrow> []
                          | Inr got \<Rightarrow> (case collection got of None \<Rightarrow> [] | Some fs \<Rightarrow> fs))
                 urls)"

text \<open>
  A layer list \<open>new\<close> extends \<open>old\<close> by the projected geometries of exactly the accepted
  features among \<open>fs\<close>, in order.
\<close>

definition appended :: "'c library \<Rightarrow> layer \<Rightarrow> geom list \<Rightarrow> geom list \<Rightarrow> 'c feature list \<Rightarrow> bool" where
  "appended lib l old new fs =
     (length old \<le> length new \<and> take (length old) new = old
      \<and> list_all2 (\<lambda>g f. projected_geom lib f = Inr g) (drop (length old) new) (filter (accepted l) fs))"

text \<open>The GeoJSON name of a geometry type.\<close>

fun geojson_name :: "wkb_type \<Rightarrow> string" where
  "geojson_name wkbPoint = ''Point''"
| "geojson_name wkbLineString = ''LineString''"
| "geojson_name wkbPolygon = ''Polygon''"
| "geojson_name wkbMultiPoint = ''MultiPoint''"
| "geojson_name wkbMultiLineString = ''MultiLineString''"
| "geojson_name wkbMultiPolygon = ''MultiPolygon''"
| "geojson_name wkbGeometryCollection = ''GeometryCollection''"

text \<open>
  What the claims about geometry types take from the library: a geometry read from GeoJSON
  has the type that the JSON names, and projecting keeps the type.
\<close>

definition reads_named_type :: "'c library \<Rightarrow> 'c json_geometry \<Rightarrow> bool" where
  "reads_named_type lib j =
     (case CreateGeometryFromJson lib j of
        None \<Rightarrow> True
      | Some g \<Rightarrow>
          geojson_name (GetGeometryType g) = gtype j
          \<and> (case Transform lib g of
                Inl e \<Rightarrow> True
              | Inr g' \<Rightarrow> GetGeometryType g' = GetGeometryType g))"

subsection \<open>Drawing\<close>

definition draw_line :: "cairo \<Rightarrow> cairo_context \<Rightarrow> point \<Rightarrow> point list \<Rightarrow> error + cairo_context" where
  "draw_line C ctx start points = cairo_calls C ctx (MoveTo start # map LineTo points)"

definition set_source_rgb :: "cairo \<Rightarrow> cairo_context \<Rightarrow> real \<times> real \<times> real \<Rightarrow> error + cairo_context" where
  "set_source_rgb C ctx = (\<lambda>(r, g, b). cairo_call C ctx (SetSourceRgb r g b))"

text \<open>
  \<open>fill_geometries\<close>: a ring is the list of its points, \<open>points[-1]\<close> of a ring without
  points is an \<open>IndexError\<close>; a polygon (a part) is filled after its rings are traced. The
  chain of tests on \<open>GetGeometryType\<close> is the case distinction on the geometry.
\<close>

fun fill_rings :: "cairo \<Rightarrow> cairo_context \<Rightarrow> point list list \<Rightarrow> error + cairo_context" where
  "fill_rings C ctx [] = Inr ctx"
| "fill_rings C ctx (points # rings) =
     (if points = [] then Inl IndexError
      else
        (case draw_line C ctx (last points) points of
           Inl e \<Rightarrow> Inl e
         | Inr ctx1 \<Rightarrow> fill_rings C ctx1 rings))"

fun fill_parts :: "cairo \<Rightarrow> cairo_context \<Rightarrow> point list list list \<Rightarrow> error + cairo_context" where
  "fill_parts C ctx [] = Inr ctx"
| "fill_parts C ctx (part # parts) =
     (case fill_rings C ctx part of
        Inl e \<Rightarrow> Inl e
      | Inr ctx1 \<Rightarrow>
          (case cairo_call C ctx1 Fill of
             Inl e \<Rightarrow> Inl e
           | Inr ctx2 \<Rightarrow> fill_parts C ctx2 parts))"

fun fill_loop ::
  "float_ops \<Rightarrow> 'c library \<Rightarrow> cairo \<Rightarrow> cairo_context \<Rightarrow> geom list \<Rightarrow> real \<Rightarrow> error + cairo_context" where
  "fill_loop F lib C ctx [] muppx = Inr ctx"
| "fill_loop F lib C ctx (geometry' # rest) muppx =
     (case (case geometry' of
              MultiPolygon polygons \<Rightarrow> Inr polygons
            | Polygon rings \<Rightarrow> Inr [rings]
            | Point p \<Rightarrow> Inr [Buffer lib p (fmul F 2 muppx) 3]
            | _ \<Rightarrow> Inl NotImplementedError) of
        Inl e \<Rightarrow> Inl e
      | Inr parts \<Rightarrow>
          (case fill_parts C ctx parts of
             Inl e \<Rightarrow> Inl e
           | Inr ctx1 \<Rightarrow> fill_loop F lib C ctx1 rest muppx))"

definition fill_geometries ::
  "float_ops \<Rightarrow> 'c library \<Rightarrow> cairo \<Rightarrow> cairo_context \<Rightarrow> geom list \<Rightarrow> real \<Rightarrow> real \<times> real \<times> real
     \<Rightarrow> error + cairo_context" where
  "fill_geometries F lib C ctx geometries muppx rgb =
     (case set_source_rgb C ctx rgb of
        Inl e \<Rightarrow> Inl e
      | Inr ctx1 \<Rightarrow> fill_loop F lib C ctx1 geometries muppx)"

text \<open>
  \<open>stroke_geometries\<close>: the rings of a polygon are traced closed (from the last point),
  a line open (from its first point through the others), each stroked on its own; a
  geometry of another type is passed over.
\<close>

fun stroke_rings :: "cairo \<Rightarrow> bool \<Rightarrow> cairo_context \<Rightarrow> point list list \<Rightarrow> error + cairo_context" where
  "stroke_rings C closing ctx [] = Inr ctx"
| "stroke_rings C closing ctx (points # rings) =
     (if points = [] then Inl IndexError
      else
        (case (if closing then draw_line C ctx (last points) points
               else draw_line C ctx (hd points) (tl points)) of
           Inl e \<Rightarrow> Inl e
         | Inr ctx1 \<Rightarrow>
             (case cairo_call C ctx1 Stroke of
                Inl e \<Rightarrow> Inl e
              | Inr ctx2 \<Rightarrow> stroke_rings C closing ctx2 rings)))"

fun stroke_parts :: "cairo \<Rightarrow> bool \<Rightarrow> cairo_context \<Rightarrow> point list list list \<Rightarrow> error + cairo_context" where
  "stroke_parts C closing ctx [] = Inr ctx"
| "stroke_parts C closing ctx (rings # parts) =
     (case stroke_rings C closing ctx rings of
        Inl e \<Rightarrow> Inl e
      | Inr ctx1 \<Rightarrow> stroke_parts C closing ctx1 parts)"

fun stroke_geometries :: "cairo \<Rightarrow> cairo_context \<Rightarrow> geom list \<Rightarrow> error + cairo_context" where
  "stroke_geometries C ctx [] = Inr ctx"
| "stroke_geometries C ctx (geometry' # rest) =
     (case (case geometry' of
              MultiPolygon polygons \<Rightarrow> stroke_parts C True ctx polygons
            | MultiLineString lines \<Rightarrow> stroke_parts C False ctx (map (\<lambda>line. [line]) lines)
            | Polygon rings \<Rightarrow> stroke_parts C True ctx [rings]
            | LineString points \<Rightarrow> stroke_parts C False ctx [[points]]
            | _ \<Rightarrow> Inr ctx) of
        Inl e \<Rightarrow> Inl e
      | Inr ctx1 \<Rightarrow> stroke_geometries C ctx1 rest)"

text \<open>
  The colours of \<open>render\<close> that are used, each a triple of quotients of ints, and the
  markers: each point a filled disc, then its outline.
\<close>

definition black :: "real \<times> real \<times> real" where
  "black = (0, 0, 0)"

definition off_white :: "float_ops \<Rightarrow> real \<times> real \<times> real" where
  "off_white F = (fdiv F 255 255, fdiv F 252 255, fdiv F 249 255)"

definition point_fill :: "float_ops \<Rightarrow> real \<times> real \<times> real" where
  "point_fill F = (fdiv F 116 255, fdiv F 165 255, fdiv F 120 255)"

definition water_fill :: "float_ops \<Rightarrow> real \<times> real \<times> real" where
  "water_fill F = (fdiv F 199 255, fdiv F 222 255, fdiv F 245 255)"

definition road_stroke :: "float_ops \<Rightarrow> real \<times> real \<times> real" where
  "road_stroke F = (fdiv F 192 255, fdiv F 224 255, fdiv F 224 255)"

definition park_fill :: "float_ops \<Rightarrow> real \<times> real \<times> real" where
  "park_fill F = (fdiv F 221 255, fdiv F 246 255, fdiv F 222 255)"

fun draw_points :: "float_ops \<Rightarrow> cairo \<Rightarrow> cairo_context \<Rightarrow> point list \<Rightarrow> error + cairo_context" where
  "draw_points F C ctx [] = Inr ctx"
| "draw_points F C ctx ((x, y) # points) =
     (case cairo_call C ctx (Arc x y 15 0 (fmul F 2 (fpi F))) of Inl e \<Rightarrow> Inl e | Inr ctx1 \<Rightarrow>
     (case set_source_rgb C ctx1 (point_fill F) of Inl e \<Rightarrow> Inl e | Inr ctx2 \<Rightarrow>
     (case cairo_call C ctx2 Fill of Inl e \<Rightarrow> Inl e | Inr ctx3 \<Rightarrow>
     (case cairo_call C ctx3 (Arc x y 15 0 (fmul F 2 (fpi F))) of Inl e \<Rightarrow> Inl e | Inr ctx4 \<Rightarrow>
     (case set_source_rgb C ctx4 black of Inl e \<Rightarrow> Inl e | Inr ctx5 \<Rightarrow>
     (case cairo_call C ctx5 Stroke of Inl e \<Rightarrow> Inl e | Inr ctx6 \<Rightarrow>
      draw_points F C ctx6 points))))))"

subsection \<open>\<open>get_local_filename\<close>, \<open>project_points\<close> and \<open>render\<close>\<close>

text \<open>
  The rest of the outside world: \<open>scheme_of\<close> is \<open>urlparse(s).scheme\<close>, \<open>download\<close> the
  fetching of a URL into a temporary file (its name, or the exception), \<open>suffix_of\<close> the
  lower-cased suffix of a file name, \<open>open_file\<close> the file of that name, \<open>float_of\<close>
  Python's \<open>float\<close>, \<open>project_lonlat\<close> the projection of one point, formatted to seven
  decimals, by the library.
\<close>

record system =
  scheme_of :: "string \<Rightarrow> string"
  download :: "string \<Rightarrow> error + string"
  suffix_of :: "string \<Rightarrow> string"
  open_file :: "string \<Rightarrow> source_file"
  float_of :: float_parser
  project_lonlat :: "real \<times> real \<Rightarrow> error + point"

definition get_local_filename :: "system \<Rightarrow> string \<Rightarrow> error + string" where
  "get_local_filename sys filename_or_url =
     (let scheme = scheme_of sys filename_or_url in
      if scheme \<in> {'''', ''file''} then Inr filename_or_url
      else if scheme \<notin> {''http'', ''https''} then Inl ValueError
      else download sys filename_or_url)"

fun project_points :: "system \<Rightarrow> (real \<times> real) list \<Rightarrow> error + point list" where
  "project_points sys [] = Inr []"
| "project_points sys (lonlat # lonlats) =
     (case project_lonlat sys lonlat of
        Inl e \<Rightarrow> Inl e
      | Inr p \<Rightarrow>
          (case project_points sys lonlats of
             Inl e \<Rightarrow> Inl e
           | Inr points \<Rightarrow> Inr (p # points)))"

text \<open>
  What a render leaves behind: the tile requests it made and the PNG files that exist. A
  file holds a whole image, or it is what a write that failed has left of one.
\<close>

datatype png_file = Whole image | Partial

record world =
  requested :: "tile_request list"
  png_files :: "string \<rightharpoonup> png_file"

text \<open>
  \<open>render\<close>, statement by statement; \<open>surface.write_to_png\<close> is the last one. The log
  line evaluates \<open>calculate_zoom\<close>; \<open>resolution / scale\<close> is a float division.
  \<open>iterate_file_points\<close> is a generator that \<open>project_points\<close> consumes: the file is
  opened at the first point asked for, and the rows are read as the points are projected.
  The model reads the file first and projects afterwards, which gives the same points;
  when both the reading and a projection raise, the exception of the model is that of the
  reading. Every Cairo call can raise; \<open>write_to_png\<close> leaves no file when it raises
  before opening it, and a partial file when it raises afterwards.
\<close>

definition render ::
  "float_ops \<Rightarrow> system \<Rightarrow> 'c library \<Rightarrow> cairo \<Rightarrow> string \<Rightarrow> string \<Rightarrow> int \<Rightarrow> int \<Rightarrow> string option
     \<Rightarrow> world \<Rightarrow> (error + unit) \<times> world" where
  "render F sys lib C filename_or_url png_filename width resolution mapzen_key w =
     (case get_local_filename sys filename_or_url of Inl e \<Rightarrow> (Inl e, w) | Inr src_filename \<Rightarrow>
     (case iterate_file_points (float_of sys) (suffix_of sys src_filename)
             (open_file sys src_filename) of Inl e \<Rightarrow> (Inl e, w) | Inr lonlats \<Rightarrow>
     (case project_points sys lonlats of Inl e \<Rightarrow> (Inl e, w) | Inr points \<Rightarrow>
     (case calculate_bounds F points of Inl e \<Rightarrow> (Inl e, w) | Inr (xmin, ymin, xmax, ymax) \<Rightarrow>
     (case make_context F C xmin ymin xmax ymax width resolution of
        Inl e \<Rightarrow> (Inl e, w) | Inr surface \<Rightarrow>
      let scale' = hscale surface in
     (case calculate_zoom F scale' resolution of Inl e \<Rightarrow> (Inl e, w) | Inr logged_zoom \<Rightarrow>
      if scale' = 0 then (Inl ZeroDivisionError, w) else
      let muppx = fdiv F (real_of_int resolution) scale' in
     (case set_source_rgb C (cr surface) (off_white F) of Inl e \<Rightarrow> (Inl e, w) | Inr ctx1 \<Rightarrow>
     (case cairo_calls C ctx1 [Rectangle xmin ymax (fsub F xmax xmin) (fsub F ymin ymax), Fill] of
        Inl e \<Rightarrow> (Inl e, w) | Inr ctx2 \<Rightarrow>
     (case get_map_features F lib xmin ymin xmax ymax resolution scale' mapzen_key of
        (outcome, urls) \<Rightarrow>
      let w1 = w\<lparr>requested := requested w @ urls\<rparr> in
     (case outcome of Inl e \<Rightarrow> (Inl e, w1) | Inr (landuse_geoms, water_geoms, roads_geoms) \<Rightarrow>
     (case fill_geometries F lib C ctx2 landuse_geoms muppx (park_fill F) of
        Inl e \<Rightarrow> (Inl e, w1) | Inr ctx3 \<Rightarrow>
     (case fill_geometries F lib C ctx3 water_geoms muppx (water_fill F) of
        Inl e \<Rightarrow> (Inl e, w1) | Inr ctx4 \<Rightarrow>
     (case cairo_call C ctx4 (SetLineWidth (fmul F (1 / 2) muppx)) of
        Inl e \<Rightarrow> (Inl e, w1) | Inr ctx5 \<Rightarrow>
     (case set_source_rgb C ctx5 (road_stroke F) of Inl e \<Rightarrow> (Inl e, w1) | Inr ctx6 \<Rightarrow>
     (case stroke_geometries C ctx6 roads_geoms of Inl e \<Rightarrow> (Inl e, w1) | Inr ctx7 \<Rightarrow>
     (case cairo_call C ctx7 (SetLineWidth (fmul F (1 / 4) muppx)) of
        Inl e \<Rightarrow> (Inl e, w1) | Inr ctx8 \<Rightarrow>
     (case draw_points F C ctx8 points of Inl e \<Rightarrow> (Inl e, w1) | Inr ctx9 \<Rightarrow>
      let img = \<lparr>pixel_width = hsize surface, pixel_height = vsize surface, drawing = ctx9\<rparr> in
     (case write_to_png C png_filename img of
        Written \<Rightarrow> (Inr (), w1\<lparr>png_files := (png_files w1)(png_filename \<mapsto> Whole img)\<rparr>)
      | OpenFailed msg \<Rightarrow> (Inl (CairoError msg), w1)
      | WriteFailed msg \<Rightarrow>
          (Inl (CairoError msg), w1\<lparr>png_files := (png_files w1)(png_filename \<mapsto> Partial)\<rparr>)
     ))))))))))))))))))"

subsection \<open>The drawing as the specification words it\<close>

text \<open>
  Back to front on the context of the canvas: the background filled over the full bounds;
  the landuse polygons filled; the water polygons filled; the roads stroked at half a map
  unit per pixel; for each input point a filled disc and its outline at a quarter.
\<close>

definition and_then :: "error + 'a \<Rightarrow> ('a \<Rightarrow> error + 'b) \<Rightarrow> error + 'b" where
  "and_then r f = (case r of Inl e \<Rightarrow> Inl e | Inr v \<Rightarrow> f v)"

definition map_drawing ::
  "float_ops \<Rightarrow> 'c library \<Rightarrow> cairo \<Rightarrow> canvas \<Rightarrow> real \<times> real \<times> real \<times> real \<Rightarrow> int \<Rightarrow> layers
     \<Rightarrow> point list \<Rightarrow> error + cairo_context" where
  "map_drawing F lib C surface box resolution the_layers points =
     (let muppx = fdiv F (real_of_int resolution) (hscale surface);
          xmin = fst box; ymin = fst (snd box); xmax = fst (snd (snd box));
          ymax = snd (snd (snd box));
          background = (\<lambda>c. and_then (set_source_rgb C c (off_white F)) (\<lambda>c.
                          cairo_calls C c
                            [Rectangle xmin ymax (fsub F xmax xmin) (fsub F ymin ymax), Fill]));
          land = (\<lambda>c. fill_geometries F lib C c (fst the_layers) muppx (park_fill F));
          waters = (\<lambda>c. fill_geometries F lib C c (fst (snd the_layers)) muppx (water_fill F));
          road_lines = (\<lambda>c. and_then (cairo_call C c (SetLineWidth (fmul F (1 / 2) muppx))) (\<lambda>c.
                          and_then (set_source_rgb C c (road_stroke F)) (\<lambda>c.
                          stroke_geometries C c (snd (snd the_layers)))));
          markers = (\<lambda>c. and_then (cairo_call C c (SetLineWidth (fmul F (1 / 4) muppx))) (\<lambda>c.
                       draw_points F C c points))
      in and_then (background (cr surface)) (\<lambda>c.
         and_then (land c) (\<lambda>c.
         and_then (waters c) (\<lambda>c.
         and_then (road_lines c) markers))))"

subsection \<open>The image of a render, as the specification words it\<close>

text \<open>
  The aspect ratio of a bounding box, width over height. The stages of the pipeline one
  after the other, an exception of any stage being that of the whole: source resolution,
  reading the points, projecting them, bounds, canvas, fetching and classifying the tiles,
  drawing. What they end in is the image to write: the canvas with its finished drawing.
\<close>

definition aspect_ratio :: "float_ops \<Rightarrow> real \<times> real \<times> real \<times> real \<Rightarrow> real" where
  "aspect_ratio F = (\<lambda>(xmin, ymin, xmax, ymax). fdiv F (fsub F xmax xmin) (fsub F ymax ymin))"

definition finished_image ::
  "float_ops \<Rightarrow> system \<Rightarrow> 'c library \<Rightarrow> cairo \<Rightarrow> string \<Rightarrow> int \<Rightarrow> int \<Rightarrow> string option
     \<Rightarrow> error + image" where
  "finished_image F sys lib C filename_or_url width resolution mapzen_key =
     and_then (get_local_filename sys filename_or_url) (\<lambda>src_filename.
     and_then (iterate_file_points (float_of sys) (suffix_of sys src_filename)
                 (open_file sys src_filename)) (\<lambda>lonlats.
     and_then (project_points sys lonlats) (\<lambda>points.
     and_then (calculate_bounds F points) (\<lambda>box.
     and_then (make_context F C (fst box) (fst (snd box)) (fst (snd (snd box)))
                 (snd (snd (snd box))) width resolution) (\<lambda>surface.
     and_then (fst (get_map_features F lib (fst box) (fst (snd box)) (fst (snd (snd box)))
                      (snd (snd (snd box))) resolution (hscale surface) mapzen_key)) (\<lambda>the_layers.
     and_then (map_drawing F lib C surface box resolution the_layers points) (\<lambda>drawn.
     Inr \<lparr>pixel_width = hsize surface, pixel_height = vsize surface, drawing = drawn\<rparr>)))))))"

text \<open>The size in pixels of a PNG file that holds a whole image.\<close>

fun png_size :: "png_file option \<Rightarrow> (int \<times> int) option" where
  "png_size (Some (Whole img)) = Some (pixel_width img, pixel_height img)"
| "png_size _ = None"

subsection \<open>The tile of a point, as slippy-map numbering has it\<close>

text \<open>
  At a zoom the Mercator square of side \<open>EARTH_DIAMETER\<close>, centred on the origin, is cut
  into \<open>2 ^ zoom\<close> columns counted from its west edge and as many rows counted from its
  north edge. Scaling takes a projected \<open>x\<close> to its distance from the west edge in tile
  widths and a projected \<open>y\<close> to its distance from the north edge in tile heights, in the
  arithmetic \<open>F\<close>; the tile of a point is the floor of its scaled coordinates. The tiles
  are those with column and row from \<open>0\<close>.
\<close>

definition scaled_x :: "float_ops \<Rightarrow> real \<Rightarrow> int \<Rightarrow> real" where
  "scaled_x F x zoom =
     fdiv F (fmul F (2 powi zoom) (fadd F x (fdiv F (EARTH_DIAMETER F) 2))) (EARTH_DIAMETER F)"

definition scaled_y :: "float_ops \<Rightarrow> real \<Rightarrow> int \<Rightarrow> real" where
  "scaled_y F y zoom =
     fdiv F (fmul F (2 powi zoom) (fsub F (fdiv F (EARTH_DIAMETER F) 2) y)) (EARTH_DIAMETER F)"

definition tile_column :: "float_ops \<Rightarrow> real \<Rightarrow> int \<Rightarrow> int" where
  "tile_column F x zoom = \<lfloor>scaled_x F x zoom\<rfloor>"

definition tile_row :: "float_ops \<Rightarrow> real \<Rightarrow> int \<Rightarrow> int" where
  "tile_row F y zoom = \<lfloor>scaled_y F y zoom\<rfloor>"

subsection \<open>Requests and collections\<close>

text \<open>The request for the tile of a row and a column: \<open>x\<close> is the column, \<open>y\<close> the row.\<close>

definition tile_url :: "int \<Rightarrow> string option \<Rightarrow> int \<times> int \<Rightarrow> tile_request" where
  "tile_url zoom mapzen_key = (\<lambda>(row, col). (zoom, col, row, mapzen_key))"

text \<open>The features of a collection of one tile, none when the tile lacks the collection.\<close>

definition collection_of :: "('c tile \<Rightarrow> 'c feature list option) \<Rightarrow> 'c tile \<Rightarrow> 'c feature list" where
  "collection_of collection got = (case collection got of None \<Rightarrow> [] | Some fs \<Rightarrow> fs)"

text \<open>
  A feature without a \<open>kind\<close> key that passes the geometry-type test of the water loop
  (among the water features) or of the roads loop (among the roads features).
\<close>

definition kindless :: "'c feature list \<Rightarrow> 'c feature list \<Rightarrow> 'c feature \<Rightarrow> bool" where
  "kindless water_features roads_features f =
     (properties f ''kind'' = None
      \<and> (f \<in> set water_features \<and> sublist ''Polygon'' (gtype (geometry f))
         \<or> f \<in> set roads_features \<and> sublist ''LineString'' (gtype (geometry f))))"

subsection \<open>A world to run the model on\<close>

text \<open>
  A landuse polygon of kind \<open>park\<close>, one of kind \<open>parking\<close>, one without a kind; a tile
  without features; a tile whose only feature is a water polygon without a kind; a tile
  service that answers every request with the same tile; a library that reads a GeoJSON
  polygon as a triangle and leaves coordinates as they are.
\<close>

definition example_feature :: "string \<Rightarrow> jvalue option \<Rightarrow> unit feature" where
  "example_feature t kind =
     \<lparr>geometry = \<lparr>gtype = t, coordinates = ()\<rparr>,
      properties = (\<lambda>key. if key = ''kind'' then kind else None)\<rparr>"

definition example_tile :: "unit tile" where
  "example_tile =
     \<lparr>landuse = Some [example_feature ''Polygon'' (Some (JString ''park'')),
                       example_feature ''Polygon'' (Some (JString ''parking'')),
                       example_feature ''Polygon'' None],
      water = Some [],
      roads = Some []\<rparr>"

definition empty_tile :: "unit tile" where
  "empty_tile = \<lparr>landuse = Some [], water = Some [], roads = Some []\<rparr>"

definition kindless_water_tile :: "unit tile" where
  "kindless_water_tile =
     \<lparr>landuse = Some [], water = Some [example_feature ''Polygon'' None], roads = Some []\<rparr>"

definition example_library :: "unit tile \<Rightarrow> unit library" where
  "example_library got =
     \<lparr>CreateGeometryFromJson =
        (\<lambda>j. if gtype j = ''Polygon'' then Some (Polygon [[(0, 0), (1, 0), (1, 1)]]) else None),
      Transform = Inr,
      Buffer = (\<lambda>p r n. []),
      fetch_tile = (\<lambda>url. Inr got)\<rparr>"

text \<open>
  A local CSV file of two rows, at \<open>(-1, -1)\<close> and \<open>(1, 1)\<close> degrees, and a projection that
  scales the degrees: longitudes so that the padded bounds of the two points span the
  middle half of the Mercator square from west to east, latitudes so that they reach \<open>h\<close>
  north and south of the equator. A Cairo that draws everything and writes every image but
  one without pixels, on which it raises after opening the file.
\<close>

definition example_rows :: "row list" where
  "example_rows =
     [[''LON'' \<mapsto> Some ''-1'', ''LAT'' \<mapsto> Some ''-1''],
      [''LON'' \<mapsto> Some ''1'', ''LAT'' \<mapsto> Some ''1'']]"

definition example_system :: "real \<Rightarrow> system" where
  "example_system h =
     \<lparr>scheme_of = (\<lambda>s. ''''),
      download = (\<lambda>s. Inl (ExternalError ''ConnectionError'')),
      suffix_of = (\<lambda>s. ''.csv''),
      open_file = (\<lambda>s. \<lparr>as_csv = Inr example_rows, as_zip = Inl (ExternalError ''BadZipFile'')\<rparr>),
      float_of = map_of [(''-1'', Finite (- 1)), (''1'', Finite 1)],
      project_lonlat = (\<lambda>(lon, lat). Inr (lon * (25 * EARTH_DIAMETER exact / 104), lat * (25 * h / 26)))\<rparr>"

definition example_cairo :: cairo where
  "example_cairo =
     \<lparr>create_surface = (\<lambda>w h. if w < 0 \<or> h < 0 then Some ''invalid size'' else None),
      draw = (\<lambda>ctx op. None),
      write_to_png = (\<lambda>name img. if pixel_width img = 0 \<or> pixel_height img = 0
                                    then WriteFailed ''error while writing to output stream''
                                    else Written)\<rparr>"

definition example_render :: "real \<Rightarrow> unit tile \<Rightarrow> (error + unit) \<times> world" where
  "example_render h got =
     render exact (example_system h) (example_library got) example_cairo
       ''points.csv'' ''out.png'' 256 1 None \<lparr>requested = [], png_files = Map.empty\<rparr>"

section \<open>Arithmetic without rounding\<close>

lemma exact_ops [simp]:
  "fadd exact a b = a + b" "fsub exact a b = a - b" "fmul exact a b = a * b"
  "fdiv exact a b = a / b" "fsqrt exact a = sqrt a" "fpow2 exact a = Some (a\<^sup>2)"
  "flog exact a = ln a" "fpi exact = pi"
  by (simp_all add: exact_def)

lemma foldl_plus: "foldl (\<lambda>a b. a + b) a vs = a + sum_list vs" for a :: real
  by (induction vs arbitrary: a) (simp_all add: add.assoc)

lemma py_sum_exact [simp]: "py_sum exact vs = sum_list vs"
proof -
  have "fadd exact = (\<lambda>a b. a + b)" by (simp add: exact_def)
  then show ?thesis using foldl_plus [of 0 vs] by (simp add: py_sum_def)
qed

lemma mean_exact: "mean exact vs = sum_list vs / real (length vs)"
  by (simp add: mean_def)

lemma squares_exact: "squares exact vs = map (\<lambda>v. Some ((v - mean exact vs)\<^sup>2)) vs"
  by (simp add: squares_def)

lemma variance_exact:
  "variance exact vs = sum_list (map (\<lambda>v. (v - mean exact vs)\<^sup>2) vs) / real (length vs)"
  by (simp add: variance_def squares_exact o_def)

lemma variance_exact_nonneg: "0 \<le> variance exact vs"
  unfolding variance_exact by (intro divide_nonneg_nonneg sum_list_nonneg) auto

lemma has_deviation_exact: "has_deviation exact vs"
  by (auto simp: has_deviation_def variance_exact_nonneg squares_exact)

lemma rounds_monotonically_exact: "rounds_monotonically exact"
  by (simp add: rounds_monotonically_def mult_left_mono divide_right_mono)

lemma EARTH_DIAMETER_exact: "EARTH_DIAMETER exact = 12756274 * pi"
  by (simp add: EARTH_DIAMETER_def)

lemma EARTH_DIAMETER_pos: "0 < EARTH_DIAMETER exact"
  by (simp add: EARTH_DIAMETER_exact)

section \<open>Bounds\<close>

subsection \<open>The code's bounds in any arithmetic\<close>

lemma those_None: "None \<in> set xs \<Longrightarrow> those xs = None"
proof (induction xs)
  case Nil then show ?case by simp
next
  case (Cons a xs) then show ?case by (cases a) (auto split: option.splits)
qed

lemma those_Some: "None \<notin> set xs \<Longrightarrow> those xs = Some (map the xs)"
proof (induction xs)
  case Nil then show ?case by simp
next
  case (Cons a xs) then show ?case by (cases a) simp_all
qed

lemma stats_spec:
  assumes "vs \<noteq> []"
  shows "stats F vs
           = (if has_deviation F vs then Inr (mean F vs, population_sd F vs)
              else if None \<in> set (squares F vs) then Inl OverflowError else Inl ValueError)"
proof (cases "None \<in> set (squares F vs)")
  case True
  from those_None [OF this] True assms show ?thesis
    by (simp add: stats_def has_deviation_def squares_def mean_def Let_def)
next
  case False
  from those_Some [OF this] False assms show ?thesis
    by (simp add: stats_def has_deviation_def squares_def mean_def variance_def
        population_sd_def Let_def not_less)
qed

lemma stats_error:
  assumes "vs \<noteq> []" and "\<not> has_deviation F vs"
  shows "stats F vs = Inl ValueError \<or> stats F vs = Inl OverflowError"
  using assms by (simp add: stats_spec)

lemma okay_xs_within:
  "points \<noteq> [] \<Longrightarrow> has_deviation F (map fst points) \<Longrightarrow>
     okay_xs F points = within_sd F 5 (map fst points)"
  by (simp add: okay_xs_def stats_spec within_sd_def filter_map o_def case_prod_unfold)

lemma okay_ys_within:
  "points \<noteq> [] \<Longrightarrow> has_deviation F (map snd points) \<Longrightarrow>
     okay_ys F points = within_sd F 3 (map snd points)"
  by (simp add: okay_ys_def stats_spec within_sd_def filter_map o_def case_prod_unfold)

lemma calculate_bounds_okay:
  assumes "points \<noteq> []"
    and "has_deviation F (map fst points)" and "has_deviation F (map snd points)"
  shows "calculate_bounds F points =
        (case py_min (okay_xs F points) of Inl e \<Rightarrow> Inl e | Inr left \<Rightarrow>
        (case py_min (okay_ys F points) of Inl e \<Rightarrow> Inl e | Inr bottom \<Rightarrow>
        (case py_max (okay_xs F points) of Inl e \<Rightarrow> Inl e | Inr right \<Rightarrow>
        (case py_max (okay_ys F points) of Inl e \<Rightarrow> Inl e | Inr top' \<Rightarrow>
        Inr (fsub F left (fdiv F (fsub F right left) 50),
             fsub F bottom (fdiv F (fsub F top' bottom) 50),
             fadd F right (fdiv F (fsub F right left) 50),
             fadd F top' (fdiv F (fsub F top' bottom) 50))))))"
  using assms
  by (simp add: calculate_bounds_def okay_xs_def okay_ys_def stats_spec Let_def
      split: sum.splits)

lemma py_min_Min:
  assumes "vs \<noteq> []"
  shows "py_min vs = Inr (Min (set vs))"
proof (cases vs)
  case Nil with assms show ?thesis by simp
next
  case (Cons a list) then show ?thesis using Min.set_eq_fold [of a list] by simp
qed

lemma py_max_Max:
  assumes "vs \<noteq> []"
  shows "py_max vs = Inr (Max (set vs))"
proof (cases vs)
  case Nil with assms show ?thesis by simp
next
  case (Cons a list) then show ?thesis using Max.set_eq_fold [of a list] by simp
qed

lemma py_min_empty: "vs = [] \<Longrightarrow> py_min vs = Inl ValueError"
  by simp

lemma calculate_bounds_has_bounds:
  assumes "points \<noteq> []"
  shows "calculate_bounds F points
           = (if has_bounds F points then Inr (spec_bounds F points)
              else if None \<in> set (squares F (map fst points))
                      \<or> 0 \<le> variance F (map fst points)
                        \<and> None \<in> set (squares F (map snd points))
              then Inl OverflowError
              else Inl ValueError)"
proof (cases "has_deviation F (map fst points)")
  case False
  with assms show ?thesis
    by (auto simp: calculate_bounds_def Let_def stats_spec has_bounds_def has_deviation_def)
next
  case dx: True
  show ?thesis
  proof (cases "has_deviation F (map snd points)")
    case False
    with assms dx show ?thesis
      by (auto simp: calculate_bounds_def Let_def stats_spec has_bounds_def has_deviation_def)
  next
    case dy: True
    from dx dy have n: "None \<notin> set (squares F (map fst points))"
      "None \<notin> set (squares F (map snd points))"
      by (simp_all add: has_deviation_def)
    have x: "okay_xs F points = within_sd F 5 (map fst points)"
      and y: "okay_ys F points = within_sd F 3 (map snd points)"
      using assms dx dy by (simp_all add: okay_xs_within okay_ys_within)
    note c = calculate_bounds_okay [OF assms dx dy, unfolded x y]
    show ?thesis
    proof (cases "within_sd F 5 (map fst points) = []")
      case True
      with dx dy n show ?thesis by (simp add: c has_bounds_def)
    next
      case nx: False
      show ?thesis
      proof (cases "within_sd F 3 (map snd points) = []")
        case True
        with dx dy n nx show ?thesis by (simp add: c has_bounds_def py_min_Min)
      next
        case False
        with dx dy nx show ?thesis
          by (simp add: c has_bounds_def py_min_Min py_max_Max spec_bounds_def Let_def)
      qed
    qed
  qed
qed

subsection \<open>Without rounding some value lies within one deviation of the mean\<close>

lemma sum_list_above:
  "vs \<noteq> [] \<Longrightarrow> \<forall>v\<in>set vs. c < f v \<Longrightarrow> real (length vs) * c < sum_list (map f vs)"
proof (induction vs)
  case Nil then show ?case by simp
next
  case (Cons a vs)
  show ?case
  proof (cases "vs = []")
    case True with Cons.prems show ?thesis by simp
  next
    case False
    with Cons have "real (length vs) * c < sum_list (map f vs)" by simp
    moreover from Cons.prems have "c < f a" by simp
    ultimately show ?thesis by (simp add: algebra_simps)
  qed
qed

lemma some_below_average:
  assumes "vs \<noteq> []"
  shows "\<exists>v\<in>set vs. f v \<le> sum_list (map f vs) / real (length vs)"
proof (rule ccontr)
  assume "\<not> ?thesis"
  then have "\<forall>v\<in>set vs. sum_list (map f vs) / real (length vs) < f v" by (simp add: not_le)
  from sum_list_above [OF assms this] assms show False by simp
qed

lemma some_within_sd:
  assumes "vs \<noteq> []" and "1 \<le> k"
  shows "\<exists>v\<in>set vs. \<bar>v - mean exact vs\<bar> \<le> k * population_sd exact vs"
proof -
  from some_below_average [OF assms(1), of "\<lambda>v. (v - mean exact vs)\<^sup>2"]
  obtain v where v: "v \<in> set vs"
    and le: "(v - mean exact vs)\<^sup>2 \<le> variance exact vs"
    unfolding variance_exact by blast
  from le have "sqrt ((v - mean exact vs)\<^sup>2) \<le> population_sd exact vs"
    unfolding population_sd_def exact_ops by (rule real_sqrt_le_mono)
  then have a: "\<bar>v - mean exact vs\<bar> \<le> population_sd exact vs" by simp
  have "0 \<le> population_sd exact vs" using a by linarith
  with assms(2) have "population_sd exact vs \<le> k * population_sd exact vs"
    by (simp add: mult_le_cancel_right1)
  with a v show ?thesis by force
qed

lemma range_abs: "(m - d \<le> v \<and> v \<le> m + d) = (\<bar>v - m\<bar> \<le> (d::real))"
  by auto

lemma within_sd_exact:
  "within_sd exact k vs = filter (\<lambda>v. \<bar>v - mean exact vs\<bar> \<le> k * population_sd exact vs) vs"
  by (simp add: within_sd_def range_abs)

lemma within_sd_nonempty: "vs \<noteq> [] \<Longrightarrow> 1 \<le> k \<Longrightarrow> within_sd exact k vs \<noteq> []"
  using some_within_sd [of vs k] by (auto simp: within_sd_exact filter_empty_conv)

lemma has_bounds_exact: "points \<noteq> [] \<Longrightarrow> has_bounds exact points"
  by (simp add: has_bounds_def has_deviation_exact within_sd_nonempty)

text \<open>
  C2: for every non-empty list of projected points \<open>calculate_bounds\<close> returns exactly the
  box of the specification: per-axis mean and population standard deviation, x-values kept
  within 5 deviations and y-values within 3, each axis filtered on its own, per-axis least
  and greatest survivor, and each of the four sides widened by 2 percent of the width (x)
  or height (y). This holds in every arithmetic, the floats of the machine included,
  wherever that procedure has a result; where it has none \<open>calculate_bounds\<close> raises
  \<open>OverflowError\<close> (a squared deviation is no float) or \<open>ValueError\<close>. Without rounding
  the procedure always has a result.
\<close>

theorem calculate_bounds_spec:
  assumes "points \<noteq> []"
  shows "calculate_bounds F points
           = (if has_bounds F points then Inr (spec_bounds F points)
              else if None \<in> set (squares F (map fst points))
                      \<or> 0 \<le> variance F (map fst points)
                        \<and> None \<in> set (squares F (map snd points))
              then Inl OverflowError
              else Inl ValueError)
       \<and> has_bounds exact points
       \<and> calculate_bounds exact points = Inr (spec_bounds exact points)"
  using assms calculate_bounds_has_bounds [of points F] calculate_bounds_has_bounds [of points exact]
    has_bounds_exact [of points]
  by simp

text \<open>
  Two points without rounding; and the same two points in an arithmetic where every
  square overflows.
\<close>

theorem calculate_bounds_spec_witness:
  "[(0, 0), (4, 2)] \<noteq> ([] :: (real \<times> real) list)
   \<and> has_bounds exact [(0, 0), (4, 2)]
   \<and> calculate_bounds exact [(0, 0), (4, 2)] = Inr (- 2 / 25, - 1 / 25, 102 / 25, 51 / 25)
   \<and> \<not> has_bounds (exact\<lparr>fpow2 := \<lambda>a. None\<rparr>) [(0, 0), (4, 2)]
   \<and> calculate_bounds (exact\<lparr>fpow2 := \<lambda>a. None\<rparr>) [(0, 0), (4, 2)] = Inl OverflowError"
proof -
  have "spec_bounds exact [(0, 0), (4, 2)] = (- 2 / 25, - 1 / 25, 102 / 25, 51 / 25)"
    by (simp add: spec_bounds_def within_sd_def mean_def variance_def squares_def
        population_sd_def Let_def)
  with calculate_bounds_spec [of "[(0, 0), (4, 2)]" exact]
  have a: "has_bounds exact [(0, 0), (4, 2)]"
    "calculate_bounds exact [(0, 0), (4, 2)] = Inr (- 2 / 25, - 1 / 25, 102 / 25, 51 / 25)"
    by simp_all
  have n: "\<not> has_bounds (exact\<lparr>fpow2 := \<lambda>a. None\<rparr>) [(0, 0), (4, 2)]"
    by (simp add: has_bounds_def has_deviation_def squares_def)
  have "None \<in> set (squares (exact\<lparr>fpow2 := \<lambda>a. None\<rparr>) (map fst [(0, 0), (4, 2)]))"
    by (simp add: squares_def)
  with calculate_bounds_spec [of "[(0, 0), (4, 2)]" "exact\<lparr>fpow2 := \<lambda>a. None\<rparr>"] n
  have b: "calculate_bounds (exact\<lparr>fpow2 := \<lambda>a. None\<rparr>) [(0, 0), (4, 2)] = Inl OverflowError"
    by simp
  from a n b show ?thesis by simp
qed

text \<open>
  C8: without rounding, for every non-empty point list the filtered lists \<open>okay_xs\<close> and
  \<open>okay_ys\<close> are non-empty, so the four \<open>min\<close>/\<open>max\<close> calls return a value and
  \<open>calculate_bounds\<close> returns a box: no failure on an empty filtered list can be reached.
\<close>

theorem okay_values_nonempty:
  assumes "points \<noteq> []"
  shows "okay_xs exact points \<noteq> [] \<and> okay_ys exact points \<noteq> []
         \<and> (\<exists>left bottom right top'.
               py_min (okay_xs exact points) = Inr left \<and> py_min (okay_ys exact points) = Inr bottom
             \<and> py_max (okay_xs exact points) = Inr right \<and> py_max (okay_ys exact points) = Inr top')
         \<and> (\<exists>box. calculate_bounds exact points = Inr box)"
proof -
  have x: "okay_xs exact points \<noteq> []" and y: "okay_ys exact points \<noteq> []"
    using assms
    by (simp_all add: okay_xs_within okay_ys_within within_sd_nonempty has_deviation_exact)
  then show ?thesis
    using assms
    by (simp add: calculate_bounds_okay has_deviation_exact py_min_Min py_max_Max)
qed

theorem okay_values_nonempty_witness:
  "okay_xs exact [(0, 0), (4, 2)] \<noteq> [] \<and> okay_ys exact [(0, 0), (4, 2)] \<noteq> []
   \<and> (\<exists>box. calculate_bounds exact [(0, 0), (4, 2)] = Inr box)"
  using okay_values_nonempty [of "[(0, 0), (4, 2)]"] by simp

subsection \<open>A single repeated point\<close>

lemma mean_replicate: "mean exact (replicate (Suc n) x) = x"
proof -
  have "sum_list (replicate (Suc n) x) = real (Suc n) * x"
    by (rule sum_list_replicate)
  then show ?thesis
    unfolding mean_exact length_replicate by (simp del: replicate.simps of_nat_Suc)
qed

lemma population_sd_replicate: "population_sd exact (replicate (Suc n) x) = 0"
proof -
  have "sum_list (map (\<lambda>v. (v - x)\<^sup>2) (replicate (Suc n) x)) = 0"
    unfolding map_replicate sum_list_replicate by simp
  then show ?thesis
    unfolding population_sd_def variance_exact mean_replicate by simp
qed

lemma within_sd_replicate: "within_sd exact k (replicate (Suc n) x) = replicate (Suc n) x"
  unfolding within_sd_exact mean_replicate population_sd_replicate
  by (simp add: filter_id_conv del: replicate.simps)

lemma okay_xs_replicate: "okay_xs exact (replicate (Suc n) (x, y)) = replicate (Suc n) x"
  using okay_xs_within [of "replicate (Suc n) (x, y)" exact] within_sd_replicate [of 5 n x]
  by (simp add: has_deviation_exact del: replicate.simps)

lemma okay_ys_replicate: "okay_ys exact (replicate (Suc n) (x, y)) = replicate (Suc n) y"
  using okay_ys_within [of "replicate (Suc n) (x, y)" exact] within_sd_replicate [of 3 n y]
  by (simp add: has_deviation_exact del: replicate.simps)

lemma py_min_replicate: "py_min (replicate (Suc n) x) = Inr x"
  using py_min_Min [of "replicate (Suc n) x"] by (simp del: replicate.simps)

lemma py_max_replicate: "py_max (replicate (Suc n) x) = Inr x"
  using py_max_Max [of "replicate (Suc n) x"] by (simp del: replicate.simps)

lemma calculate_bounds_replicate:
  "calculate_bounds exact (replicate (Suc n) (x, y)) = Inr (x, y, x, y)"
proof -
  have "replicate (Suc n) (x, y) \<noteq> []" by simp
  from calculate_bounds_okay [OF this has_deviation_exact has_deviation_exact]
  show ?thesis
    unfolding okay_xs_replicate okay_ys_replicate py_min_replicate py_max_replicate
    by simp
qed

text \<open>
  C1, as the code has it: on a list whose points are all the same point \<open>(x, y)\<close>,
  \<open>calculate_bounds\<close> raises nothing and returns the box \<open>(x, y, x, y)\<close> of width and
  height zero; the failure comes afterwards, as the \<open>ZeroDivisionError\<close> of
  \<open>make_context\<close> on that box.
\<close>

theorem calculate_bounds_repeated_point:
  "calculate_bounds exact (replicate (Suc n) (x, y)) = Inr (x, y, x, y)
   \<and> make_context exact C x y x y width resolution = Inl ZeroDivisionError"
  using calculate_bounds_replicate [of n x y] by (simp add: make_context_def)

theorem calculate_bounds_repeated_point_witness:
  "calculate_bounds exact [(3, 7), (3, 7), (3, 7)] = Inr (3, 7, 3, 7)
   \<and> make_context exact example_cairo 3 7 3 7 668 1 = Inl ZeroDivisionError"
  using calculate_bounds_repeated_point [of 2 3 7 example_cairo 668 1]
  by (simp add: numeral_2_eq_2)

text \<open>
  The claim as written asks for a failure and excludes a box with \<open>xmax = xmin\<close>: on the
  point \<open>(1, 1)\<close> given twice the code returns the box \<open>(1, 1, 1, 1)\<close>.
\<close>

theorem calculate_bounds_repeated_point_counterexample:
  "calculate_bounds exact [(1, 1), (1, 1)] = Inr (1, 1, 1, 1)"
  using calculate_bounds_replicate [of 1 1 1] by simp

section \<open>Point ingestion\<close>

text \<open>
  C5: the loop over the rows yields exactly the rows whose \<open>LON\<close> and \<open>LAT\<close> columns both
  parse as numbers with \<open>lon\<close> in \<open>[-180, 180]\<close> and \<open>lat\<close> in \<open>[-90, 90]\<close>, in their
  order, each as its pair of numbers; every other row is skipped and the loop raises
  nothing.
\<close>

theorem iterate_rows_valid:
  "iterate_rows pf rows = map (row_point pf) (filter (valid_row pf) rows)"
proof (induction rows)
  case Nil show ?case by simp
next
  case (Cons r rows)
  then show ?case
    by (simp add: float_cell_def valid_row_def parsed_def row_point_def
        split: option.splits sum.splits)
qed

text \<open>
  Five rows, two with a \<open>LON\<close> that is no number and one with \<open>lat = 95\<close>: two points.
\<close>

theorem iterate_rows_valid_witness:
  "iterate_rows
     (map_of [(''10.5'', Finite (21 / 2)), (''20'', Finite 20), (''-77.25'', Finite (- 309 / 4)),
              (''38.5'', Finite (77 / 2)), (''95'', Finite 95)])
     [[''LON'' \<mapsto> Some ''10.5'', ''LAT'' \<mapsto> Some ''20''],
      [''LON'' \<mapsto> Some ''east'', ''LAT'' \<mapsto> Some ''20''],
      [''LON'' \<mapsto> Some ''10.5'', ''LAT'' \<mapsto> Some ''95''],
      [''LON'' \<mapsto> Some '''', ''LAT'' \<mapsto> Some ''38.5''],
      [''LON'' \<mapsto> Some ''-77.25'', ''LAT'' \<mapsto> Some ''38.5'']]
   = [(21 / 2, 20), (- 309 / 4, 77 / 2)]"
  unfolding iterate_rows_valid
  by (simp add: valid_row_def parsed_def row_point_def)

section \<open>Feature classification\<close>

subsection \<open>What each loop appends\<close>

lemma appended_iff:
  "appended lib l old new fs =
     (\<exists>gs. new = old @ gs
          \<and> list_all2 (\<lambda>g f. projected_geom lib f = Inr g) gs (filter (accepted l) fs))"
proof
  assume a: "appended lib l old new fs"
  then have "new = old @ drop (length old) new"
    unfolding appended_def by (metis append_take_drop_id)
  with a show "\<exists>gs. new = old @ gs
          \<and> list_all2 (\<lambda>g f. projected_geom lib f = Inr g) gs (filter (accepted l) fs)"
    unfolding appended_def by blast
next
  assume "\<exists>gs. new = old @ gs
          \<and> list_all2 (\<lambda>g f. projected_geom lib f = Inr g) gs (filter (accepted l) fs)"
  then show "appended lib l old new fs"
    unfolding appended_def by auto
qed

lemma appended_Nil: "appended lib l old old []"
  by (simp add: appended_iff)

lemma appended_skip:
  "\<not> accepted l f \<Longrightarrow> appended lib l old new fs \<Longrightarrow> appended lib l old new (f # fs)"
  by (simp add: appended_iff)

lemma appended_step:
  assumes "accepted l f" and "projected_geom lib f = Inr g"
    and "appended lib l (old @ [g]) new fs"
  shows "appended lib l old new (f # fs)"
proof -
  from assms(3) obtain gs where "new = (old @ [g]) @ gs"
    and "list_all2 (\<lambda>g f. projected_geom lib f = Inr g) gs (filter (accepted l) fs)"
    unfolding appended_iff by blast
  with assms(1,2) have "new = old @ (g # gs)"
    and "list_all2 (\<lambda>g f. projected_geom lib f = Inr g) (g # gs) (filter (accepted l) (f # fs))"
    by simp_all
  then show ?thesis unfolding appended_iff by blast
qed

lemma appended_trans:
  assumes "appended lib l old mid fs1" and "appended lib l mid new fs2"
  shows "appended lib l old new (fs1 @ fs2)"
proof -
  from assms obtain gs1 gs2 where "mid = old @ gs1" "new = mid @ gs2"
    and "list_all2 (\<lambda>g f. projected_geom lib f = Inr g) gs1 (filter (accepted l) fs1)"
    and "list_all2 (\<lambda>g f. projected_geom lib f = Inr g) gs2 (filter (accepted l) fs2)"
    unfolding appended_iff by blast
  then have "new = old @ (gs1 @ gs2)"
    and "list_all2 (\<lambda>g f. projected_geom lib f = Inr g) (gs1 @ gs2) (filter (accepted l) (fs1 @ fs2))"
    by (simp_all add: list_all2_appendI)
  then show ?thesis unfolding appended_iff by blast
qed

lemma kind_test_py_in: "kind_test l f = py_in (properties f ''kind'') (allow_list l)"
  by (simp add: kind_test_def py_in_def)

lemma accepted_Landuse:
  "accepted Landuse f =
     (sublist ''Polygon'' (gtype (geometry f)) \<and> py_in (properties f ''kind'') LANDUSE_KINDS)"
  by (simp add: accepted_def geometry_type_test_def kind_test_py_in LANDUSE_KINDS_def)

lemma accepted_Water:
  "accepted Water f =
     (sublist ''Polygon'' (gtype (geometry f)) \<and> py_in (properties f ''kind'') WATER_KINDS)"
  by (simp add: accepted_def geometry_type_test_def kind_test_py_in WATER_KINDS_def)

lemma accepted_Roads:
  "accepted Roads f =
     (sublist ''LineString'' (gtype (geometry f)) \<and> py_in (properties f ''kind'') ROADS_KINDS)"
  by (simp add: accepted_def geometry_type_test_def kind_test_py_in ROADS_KINDS_def)

lemma py_in_None: "py_in None strs = False"
  by (simp add: py_in_def)

lemma landuse_loop_appended:
  "landuse_loop lib fs acc = Inr out \<Longrightarrow> appended lib Landuse acc out fs"
proof (induction fs arbitrary: acc)
  case Nil then show ?case by (simp add: appended_Nil)
next
  case (Cons f fs)
  show ?case
  proof (cases "accepted Landuse f")
    case False
    with Cons.prems have "landuse_loop lib fs acc = Inr out"
      by (auto simp: accepted_Landuse split: if_splits)
    from appended_skip [OF False Cons.IH [OF this]] show ?thesis .
  next
    case True
    with Cons.prems obtain g where g: "projected_geom lib f = Inr g"
      and r: "landuse_loop lib fs (acc @ [g]) = Inr out"
      by (auto simp: accepted_Landuse split: sum.splits)
    from appended_step [OF True g Cons.IH [OF r]] show ?thesis .
  qed
qed

lemma water_loop_appended:
  "water_loop lib fs acc = Inr out \<Longrightarrow> appended lib Water acc out fs"
proof (induction fs arbitrary: acc)
  case Nil then show ?case by (simp add: appended_Nil)
next
  case (Cons f fs)
  show ?case
  proof (cases "accepted Water f")
    case False
    with Cons.prems have "water_loop lib fs acc = Inr out"
      by (auto simp: accepted_Water split: if_splits option.splits)
    from appended_skip [OF False Cons.IH [OF this]] show ?thesis .
  next
    case True
    with Cons.prems obtain g where g: "projected_geom lib f = Inr g"
      and r: "water_loop lib fs (acc @ [g]) = Inr out"
      by (auto simp: accepted_Water py_in_None split: sum.splits option.splits)
    from appended_step [OF True g Cons.IH [OF r]] show ?thesis .
  qed
qed

lemma roads_loop_appended:
  "roads_loop lib fs acc = Inr out \<Longrightarrow> appended lib Roads acc out fs"
proof (induction fs arbitrary: acc)
  case Nil then show ?case by (simp add: appended_Nil)
next
  case (Cons f fs)
  show ?case
  proof (cases "accepted Roads f")
    case False
    with Cons.prems have "roads_loop lib fs acc = Inr out"
      by (auto simp: accepted_Roads split: if_splits option.splits)
    from appended_skip [OF False Cons.IH [OF this]] show ?thesis .
  next
    case True
    with Cons.prems obtain g where g: "projected_geom lib f = Inr g"
      and r: "roads_loop lib fs (acc @ [g]) = Inr out"
      by (auto simp: accepted_Roads py_in_None split: sum.splits option.splits)
    from appended_step [OF True g Cons.IH [OF r]] show ?thesis .
  qed
qed

lemma tile_features_appended:
  assumes "tile_features lib got (l, w, r) = Inr (l', w', r')"
  shows "appended lib Landuse l l' (collection_of landuse got)
       \<and> appended lib Water w w' (collection_of water got)
       \<and> appended lib Roads r r' (collection_of roads got)"
  using assms
  by (auto simp: tile_features_def collection_of_def
      split: option.splits sum.splits
      dest: landuse_loop_appended water_loop_appended roads_loop_appended)

lemma fetched_features_Cons:
  "fetch_tile lib url = Inr got \<Longrightarrow>
     fetched_features lib collection (url # urls)
       = collection_of collection got @ fetched_features lib collection urls"
  by (simp add: fetched_features_def collection_of_def)

lemma tiles_loop_appended:
  "tiles_loop lib zoom key rcs (l, w, r) = (Inr (l', w', r'), urls) \<Longrightarrow>
     appended lib Landuse l l' (fetched_features lib landuse urls)
   \<and> appended lib Water w w' (fetched_features lib water urls)
   \<and> appended lib Roads r r' (fetched_features lib roads urls)"
proof (induction rcs arbitrary: l w r urls)
  case Nil
  then show ?case by (simp add: fetched_features_def appended_Nil)
next
  case (Cons rc rcs)
  obtain row col where rc: "rc = (row, col)" by (cases rc)
  let ?url = "(zoom, col, row, key)"
  from Cons.prems rc obtain got l1 w1 r1 urls' where
    got: "fetch_tile lib ?url = Inr got"
    and tf: "tile_features lib got (l, w, r) = Inr (l1, w1, r1)"
    and rest: "tiles_loop lib zoom key rcs (l1, w1, r1) = (Inr (l', w', r'), urls')"
    and urls: "urls = ?url # urls'"
    by (auto simp: Let_def split: sum.splits prod.splits)
  from tile_features_appended [OF tf] Cons.IH [OF rest]
  show ?case
    unfolding urls fetched_features_Cons [OF got]
    by (blast intro: appended_trans)
qed

text \<open>
  C3: when \<open>get_map_features\<close> returns, each of its three lists holds, in fetch order, the
  projected geometries of exactly those features of the fetched tiles' collection that pass
  both the geometry-type test of the layer (type string containing \<open>Polygon\<close> for landuse
  and water, \<open>LineString\<close> for roads) and the kind test of the layer's allow-list; so no
  geometry in a layer comes from a feature whose kind is outside the allow-list.
\<close>

theorem layers_hold_accepted_features:
  assumes "get_map_features F lib xmin ymin xmax ymax resolution scale' mapzen_key
             = (Inr (landuse_geoms, water_geoms, roads_geoms), urls)"
  shows "list_all2 (\<lambda>g f. projected_geom lib f = Inr g) landuse_geoms
           (filter (\<lambda>f. geometry_type_test Landuse f \<and> kind_test Landuse f)
              (fetched_features lib landuse urls))
       \<and> list_all2 (\<lambda>g f. projected_geom lib f = Inr g) water_geoms
           (filter (\<lambda>f. geometry_type_test Water f \<and> kind_test Water f)
              (fetched_features lib water urls))
       \<and> list_all2 (\<lambda>g f. projected_geom lib f = Inr g) roads_geoms
           (filter (\<lambda>f. geometry_type_test Roads f \<and> kind_test Roads f)
              (fetched_features lib roads urls))"
proof -
  from assms obtain zoom where
    "tiles_loop lib zoom mapzen_key (row_cols F xmin ymin xmax ymax zoom) ([], [], [])
       = (Inr (landuse_geoms, water_geoms, roads_geoms), urls)"
    by (auto simp: get_map_features_def Let_def split: sum.splits)
  from tiles_loop_appended [OF this] show ?thesis
    by (simp add: appended_def accepted_def [abs_def])
qed

subsection \<open>The model run on one tile\<close>

lemma calculate_zoom_unit: "calculate_zoom exact (256 / EARTH_DIAMETER exact) 1 = Inr 0"
  using EARTH_DIAMETER_pos by (simp add: calculate_zoom_def Let_def)

lemma py_round_0: "py_round 0 = 0"
  by (simp add: py_round_def)

lemma quarter_scaled:
  "(- (EARTH_DIAMETER exact / 4) + EARTH_DIAMETER exact / 2) / EARTH_DIAMETER exact = 1 / 4"
  "(EARTH_DIAMETER exact / 4 + EARTH_DIAMETER exact / 2) / EARTH_DIAMETER exact = 3 / 4"
  "(EARTH_DIAMETER exact / 2 - EARTH_DIAMETER exact / 4) / EARTH_DIAMETER exact = 1 / 4"
  "(EARTH_DIAMETER exact / 2 - - (EARTH_DIAMETER exact / 4)) / EARTH_DIAMETER exact = 3 / 4"
  "(EARTH_DIAMETER exact / 2 + EARTH_DIAMETER exact / 4) / EARTH_DIAMETER exact = 3 / 4"
  using EARTH_DIAMETER_pos by (simp_all add: field_simps)

lemma row_cols_example:
  "row_cols exact (- (EARTH_DIAMETER exact / 4)) (- (EARTH_DIAMETER exact / 4)) (EARTH_DIAMETER exact / 4) (EARTH_DIAMETER exact / 4) 0
     = [(0, 0)]"
  by (simp add: row_cols_def Let_def py_int_def py_range_def upto.simps quarter_scaled)

lemma example_get_map_features:
  "get_map_features exact (example_library example_tile)
       (- (EARTH_DIAMETER exact / 4)) (- (EARTH_DIAMETER exact / 4)) (EARTH_DIAMETER exact / 4) (EARTH_DIAMETER exact / 4)
       1 (256 / EARTH_DIAMETER exact) None
     = (Inr ([Polygon [[(0, 0), (1, 0), (1, 1)]]], [], []), [(0, 0, 0, None)])"
  by (simp add: get_map_features_def calculate_zoom_unit py_round_0 row_cols_example
      tile_features_def example_library_def example_tile_def example_feature_def
      projected_geom_def py_in_def LANDUSE_KINDS_def)

text \<open>
  A box inside one tile at zoom 0, the tile holding a park, a parking lot and a polygon
  without a kind: the landuse layer holds the park alone.
\<close>

theorem layers_hold_accepted_features_witness:
  "get_map_features exact (example_library example_tile)
       (- (EARTH_DIAMETER exact / 4)) (- (EARTH_DIAMETER exact / 4)) (EARTH_DIAMETER exact / 4) (EARTH_DIAMETER exact / 4)
       1 (256 / EARTH_DIAMETER exact) None
     = (Inr ([Polygon [[(0, 0), (1, 0), (1, 1)]]], [], []), [(0, 0, 0, None)])
   \<and> list_all2 (\<lambda>g f. projected_geom (example_library example_tile) f = Inr g)
        [Polygon [[(0, 0), (1, 0), (1, 1)]]]
        (filter (\<lambda>f. geometry_type_test Landuse f \<and> kind_test Landuse f)
           (fetched_features (example_library example_tile) landuse [(0, 0, 0, None)]))"
  using layers_hold_accepted_features [OF example_get_map_features] example_get_map_features
  by simp

section \<open>The tile grid\<close>

lemma row_cols_indices:
  "row_cols F xmin ymin xmax ymax zoom
     = List.product [py_int (scaled_y F ymax zoom) .. py_int (scaled_y F ymin zoom)]
                    [py_int (scaled_x F xmin zoom) .. py_int (scaled_x F xmax zoom)]"
  by (simp add: row_cols_def py_range_def scaled_x_def scaled_y_def Let_def)

lemma set_row_cols:
  "set (row_cols F xmin ymin xmax ymax zoom)
     = {py_int (scaled_y F ymax zoom) .. py_int (scaled_y F ymin zoom)}
       \<times> {py_int (scaled_x F xmin zoom) .. py_int (scaled_x F xmax zoom)}"
  by (simp add: row_cols_def py_range_def scaled_x_def scaled_y_def Let_def)

lemma py_int_cover:
  assumes "a \<le> c" and "c \<le> b" and "0 \<le> \<lfloor>c\<rfloor>"
  shows "py_int a \<le> \<lfloor>c\<rfloor> \<and> \<lfloor>c\<rfloor> \<le> py_int b"
proof -
  from assms(3) have c0: "0 \<le> c" by (simp add: zero_le_floor)
  with assms(2) have "0 \<le> b" by simp
  then have b: "\<lfloor>c\<rfloor> \<le> py_int b"
    using assms(2) by (simp add: py_int_def floor_mono)
  have a: "py_int a \<le> \<lfloor>c\<rfloor>"
  proof (cases "0 \<le> a")
    case True then show ?thesis using assms(1) by (simp add: py_int_def floor_mono)
  next
    case False
    then have "\<lceil>a\<rceil> \<le> 0" by (simp add: ceiling_le_iff)
    from this assms(3) have "\<lceil>a\<rceil> \<le> \<lfloor>c\<rfloor>" by (rule order_trans)
    with False show ?thesis by (simp add: py_int_def)
  qed
  from a b show ?thesis by simp
qed

lemma scaled_x_mono:
  assumes "rounds_monotonically F" and "0 < EARTH_DIAMETER F" and "a \<le> b"
  shows "scaled_x F a zoom \<le> scaled_x F b zoom"
proof -
  have p: "(0::real) \<le> 2 powi zoom" by simp
  from assms(1,3)
  have "fadd F a (fdiv F (EARTH_DIAMETER F) 2) \<le> fadd F b (fdiv F (EARTH_DIAMETER F) 2)"
    unfolding rounds_monotonically_def by blast
  with assms(1) p
  have "fmul F (2 powi zoom) (fadd F a (fdiv F (EARTH_DIAMETER F) 2))
          \<le> fmul F (2 powi zoom) (fadd F b (fdiv F (EARTH_DIAMETER F) 2))"
    unfolding rounds_monotonically_def by blast
  with assms(1,2) show ?thesis
    unfolding rounds_monotonically_def scaled_x_def by blast
qed

lemma scaled_y_antimono:
  assumes "rounds_monotonically F" and "0 < EARTH_DIAMETER F" and "a \<le> b"
  shows "scaled_y F b zoom \<le> scaled_y F a zoom"
proof -
  have p: "(0::real) \<le> 2 powi zoom" by simp
  from assms(1,3)
  have "fsub F (fdiv F (EARTH_DIAMETER F) 2) b \<le> fsub F (fdiv F (EARTH_DIAMETER F) 2) a"
    unfolding rounds_monotonically_def by blast
  with assms(1) p
  have "fmul F (2 powi zoom) (fsub F (fdiv F (EARTH_DIAMETER F) 2) b)
          \<le> fmul F (2 powi zoom) (fsub F (fdiv F (EARTH_DIAMETER F) 2) a)"
    unfolding rounds_monotonically_def by blast
  with assms(1,2) show ?thesis
    unfolding rounds_monotonically_def scaled_y_def by blast
qed

lemma row_cols_covers:
  assumes "rounds_monotonically F" and "0 < EARTH_DIAMETER F"
    and "xmin \<le> x" and "x \<le> xmax" and "ymin \<le> y" and "y \<le> ymax"
    and "0 \<le> tile_column F x zoom" and "0 \<le> tile_row F y zoom"
  shows "(tile_row F y zoom, tile_column F x zoom) \<in> set (row_cols F xmin ymin xmax ymax zoom)"
proof -
  have c: "py_int (scaled_x F xmin zoom) \<le> tile_column F x zoom
           \<and> tile_column F x zoom \<le> py_int (scaled_x F xmax zoom)"
    unfolding tile_column_def
    using assms(1,2,3,4,7) by (intro py_int_cover scaled_x_mono) (simp_all add: tile_column_def)
  have r: "py_int (scaled_y F ymax zoom) \<le> tile_row F y zoom
           \<and> tile_row F y zoom \<le> py_int (scaled_y F ymin zoom)"
    unfolding tile_row_def
    using assms(1,2,5,6,8) by (intro py_int_cover scaled_y_antimono) (simp_all add: tile_row_def)
  from c r show ?thesis by (simp add: set_row_cols)
qed

subsection \<open>Without rounding the tiles are those that the box meets\<close>

lemma scaled_x_exact: "scaled_x exact x zoom = 2 powi zoom * (x + EARTH_DIAMETER exact / 2) / EARTH_DIAMETER exact"
  by (simp add: scaled_x_def)

lemma scaled_y_exact: "scaled_y exact y zoom = 2 powi zoom * (EARTH_DIAMETER exact / 2 - y) / EARTH_DIAMETER exact"
  by (simp add: scaled_y_def)

lemma scaled_x_onto:
  "scaled_x exact (v * EARTH_DIAMETER exact / 2 powi zoom - EARTH_DIAMETER exact / 2) zoom = v"
  using EARTH_DIAMETER_pos by (simp add: scaled_x_exact)

lemma scaled_y_onto:
  "scaled_y exact (EARTH_DIAMETER exact / 2 - v * EARTH_DIAMETER exact / 2 powi zoom) zoom = v"
  using EARTH_DIAMETER_pos by (simp add: scaled_y_exact)

lemma scaled_x_le_iff: "scaled_x exact a zoom \<le> scaled_x exact b zoom \<longleftrightarrow> a \<le> b"
proof -
  have "(0::real) < 2 powi zoom" by simp
  then show ?thesis
    using EARTH_DIAMETER_pos by (simp add: scaled_x_exact divide_le_cancel)
qed

lemma scaled_y_le_iff: "scaled_y exact a zoom \<le> scaled_y exact b zoom \<longleftrightarrow> b \<le> a"
proof -
  have "(0::real) < 2 powi zoom" by simp
  then show ?thesis
    using EARTH_DIAMETER_pos by (simp add: scaled_y_exact divide_le_cancel)
qed

lemma floor_between:
  assumes "\<lfloor>a\<rfloor> \<le> k" and "k \<le> \<lfloor>b\<rfloor>" and "a \<le> (b::real)"
  shows "\<exists>v. a \<le> v \<and> v \<le> b \<and> \<lfloor>v\<rfloor> = k"
proof (cases "a \<le> of_int k")
  case True
  moreover from assms(2) have "of_int k \<le> b" by (simp add: le_floor_iff)
  ultimately show ?thesis by (intro exI [of _ "of_int k"]) simp
next
  case False
  then have "k \<le> \<lfloor>a\<rfloor>" by (simp add: le_floor_iff)
  with assms(1) have "\<lfloor>a\<rfloor> = k" by simp
  with assms(3) show ?thesis by (intro exI [of _ a]) simp
qed

lemma column_met:
  assumes "tile_column exact xmin zoom \<le> col" and "col \<le> tile_column exact xmax zoom"
    and "xmin \<le> xmax"
  shows "\<exists>x. xmin \<le> x \<and> x \<le> xmax \<and> tile_column exact x zoom = col"
proof -
  from assms(3) have "scaled_x exact xmin zoom \<le> scaled_x exact xmax zoom"
    by (simp add: scaled_x_le_iff)
  from floor_between [OF assms(1,2) [unfolded tile_column_def] this]
  obtain v where v: "scaled_x exact xmin zoom \<le> v" "v \<le> scaled_x exact xmax zoom" "\<lfloor>v\<rfloor> = col"
    by blast
  let ?x = "v * EARTH_DIAMETER exact / 2 powi zoom - EARTH_DIAMETER exact / 2"
  have s: "scaled_x exact ?x zoom = v" by (rule scaled_x_onto)
  from v(1,2) have "xmin \<le> ?x" "?x \<le> xmax"
    using scaled_x_le_iff [of xmin zoom ?x] scaled_x_le_iff [of ?x zoom xmax]
    by (simp_all only: s)
  moreover from v(3) s have "tile_column exact ?x zoom = col" by (simp add: tile_column_def)
  ultimately show ?thesis by blast
qed

lemma row_met:
  assumes "tile_row exact ymax zoom \<le> row" and "row \<le> tile_row exact ymin zoom"
    and "ymin \<le> ymax"
  shows "\<exists>y. ymin \<le> y \<and> y \<le> ymax \<and> tile_row exact y zoom = row"
proof -
  from assms(3) have "scaled_y exact ymax zoom \<le> scaled_y exact ymin zoom"
    by (simp add: scaled_y_le_iff)
  from floor_between [OF assms(1,2) [unfolded tile_row_def] this]
  obtain v where v: "scaled_y exact ymax zoom \<le> v" "v \<le> scaled_y exact ymin zoom" "\<lfloor>v\<rfloor> = row"
    by blast
  let ?y = "EARTH_DIAMETER exact / 2 - v * EARTH_DIAMETER exact / 2 powi zoom"
  have s: "scaled_y exact ?y zoom = v" by (rule scaled_y_onto)
  from v(1,2) have "ymin \<le> ?y" "?y \<le> ymax"
    using scaled_y_le_iff [of ?y zoom ymin] scaled_y_le_iff [of ymax zoom ?y]
    by (simp_all only: s)
  moreover from v(3) s have "tile_row exact ?y zoom = row" by (simp add: tile_row_def)
  ultimately show ?thesis by blast
qed

lemma py_int_floor: "0 \<le> \<lfloor>v\<rfloor> \<Longrightarrow> py_int v = \<lfloor>v\<rfloor>"
  by (simp add: py_int_def zero_le_floor)

lemma row_cols_met:
  assumes "xmin \<le> xmax" and "ymin \<le> ymax"
    and "0 \<le> tile_column exact xmin zoom" and "0 \<le> tile_row exact ymax zoom"
  shows "set (row_cols exact xmin ymin xmax ymax zoom)
           = {(row, col). \<exists>x y. xmin \<le> x \<and> x \<le> xmax \<and> ymin \<le> y \<and> y \<le> ymax
                                \<and> tile_row exact y zoom = row \<and> tile_column exact x zoom = col}"
proof -
  have xm: "tile_column exact xmin zoom \<le> tile_column exact xmax zoom"
    unfolding tile_column_def using assms(1) by (intro floor_mono) (simp add: scaled_x_le_iff)
  have ym: "tile_row exact ymax zoom \<le> tile_row exact ymin zoom"
    unfolding tile_row_def using assms(2) by (intro floor_mono) (simp add: scaled_y_le_iff)
  have s: "set (row_cols exact xmin ymin xmax ymax zoom)
             = {tile_row exact ymax zoom .. tile_row exact ymin zoom}
               \<times> {tile_column exact xmin zoom .. tile_column exact xmax zoom}"
  proof -
    from assms(3) xm have "0 \<le> tile_column exact xmax zoom" by simp
    moreover from assms(4) ym have "0 \<le> tile_row exact ymin zoom" by simp
    ultimately show ?thesis
      using assms(3,4) by (simp add: set_row_cols tile_column_def tile_row_def py_int_floor)
  qed
  show ?thesis
  proof (intro set_eqI iffI)
    fix t assume t: "t \<in> set (row_cols exact xmin ymin xmax ymax zoom)"
    obtain row col where rc: "t = (row, col)" by (cases t)
    from t rc s have r: "tile_row exact ymax zoom \<le> row" "row \<le> tile_row exact ymin zoom"
      and c: "tile_column exact xmin zoom \<le> col" "col \<le> tile_column exact xmax zoom"
      by simp_all
    from column_met [OF c assms(1)] row_met [OF r assms(2)] rc
    show "t \<in> {(row, col). \<exists>x y. xmin \<le> x \<and> x \<le> xmax \<and> ymin \<le> y \<and> y \<le> ymax
                                \<and> tile_row exact y zoom = row \<and> tile_column exact x zoom = col}"
      by blast
  next
    fix t assume "t \<in> {(row, col). \<exists>x y. xmin \<le> x \<and> x \<le> xmax \<and> ymin \<le> y \<and> y \<le> ymax
                                \<and> tile_row exact y zoom = row \<and> tile_column exact x zoom = col}"
    then obtain x y where t: "t = (tile_row exact y zoom, tile_column exact x zoom)"
      and b: "xmin \<le> x" "x \<le> xmax" "ymin \<le> y" "y \<le> ymax"
      by blast
    from b(1) have "tile_column exact xmin zoom \<le> tile_column exact x zoom"
      unfolding tile_column_def by (intro floor_mono) (simp add: scaled_x_le_iff)
    with assms(3) have c0: "0 \<le> tile_column exact x zoom" by simp
    from b(4) have "tile_row exact ymax zoom \<le> tile_row exact y zoom"
      unfolding tile_row_def by (intro floor_mono) (simp add: scaled_y_le_iff)
    with assms(4) have r0: "0 \<le> tile_row exact y zoom" by simp
    from row_cols_covers [OF rounds_monotonically_exact EARTH_DIAMETER_pos b c0 r0] t
    show "t \<in> set (row_cols exact xmin ymin xmax ymax zoom)" by simp
  qed
qed

text \<open>
  C4: at the integer zoom, \<open>row_cols\<close> is the product of the inclusive row range
  \<open>[int(minrow), int(maxrow)]\<close> and the inclusive column range \<open>[int(mincol), int(maxcol)]\<close>,
  rows outermost, where \<open>mincol\<close> and \<open>maxcol\<close> are the scaled \<open>xmin\<close> and \<open>xmax\<close>, \<open>minrow\<close>
  and \<open>maxrow\<close> the scaled \<open>ymax\<close> and \<open>ymin\<close>, and \<open>int\<close> truncates toward zero. In every
  arithmetic that rounds monotonically, the tile of every point of the bounding box, its
  edges and the tile boundaries included, is among them, as far as the point has a tile
  (column and row not negative: west and north of the Mercator square there are none).
  Without rounding, for a box whose north-west corner has a tile, the tiles returned are
  exactly the tiles of the points of the box: all that the box meets, and no other.
\<close>

theorem row_cols_cover:
  "row_cols F xmin ymin xmax ymax zoom
     = List.product [py_int (scaled_y F ymax zoom) .. py_int (scaled_y F ymin zoom)]
                    [py_int (scaled_x F xmin zoom) .. py_int (scaled_x F xmax zoom)]
   \<and> (rounds_monotonically F \<and> 0 < EARTH_DIAMETER F
        \<and> xmin \<le> x \<and> x \<le> xmax \<and> ymin \<le> y \<and> y \<le> ymax
        \<and> 0 \<le> tile_column F x zoom \<and> 0 \<le> tile_row F y zoom
      \<longrightarrow> (tile_row F y zoom, tile_column F x zoom) \<in> set (row_cols F xmin ymin xmax ymax zoom))
   \<and> (xmin \<le> xmax \<and> ymin \<le> ymax
        \<and> 0 \<le> tile_column exact xmin zoom \<and> 0 \<le> tile_row exact ymax zoom
      \<longrightarrow> set (row_cols exact xmin ymin xmax ymax zoom)
            = {(row, col). \<exists>x y. xmin \<le> x \<and> x \<le> xmax \<and> ymin \<le> y \<and> y \<le> ymax
                                 \<and> tile_row exact y zoom = row \<and> tile_column exact x zoom = col})"
proof (intro conjI impI)
  show "row_cols F xmin ymin xmax ymax zoom
     = List.product [py_int (scaled_y F ymax zoom) .. py_int (scaled_y F ymin zoom)]
                    [py_int (scaled_x F xmin zoom) .. py_int (scaled_x F xmax zoom)]"
    by (rule row_cols_indices)
next
  assume "rounds_monotonically F \<and> 0 < EARTH_DIAMETER F
        \<and> xmin \<le> x \<and> x \<le> xmax \<and> ymin \<le> y \<and> y \<le> ymax
        \<and> 0 \<le> tile_column F x zoom \<and> 0 \<le> tile_row F y zoom"
  then show "(tile_row F y zoom, tile_column F x zoom) \<in> set (row_cols F xmin ymin xmax ymax zoom)"
    by (intro row_cols_covers) simp_all
next
  assume "xmin \<le> xmax \<and> ymin \<le> ymax
        \<and> 0 \<le> tile_column exact xmin zoom \<and> 0 \<le> tile_row exact ymax zoom"
  then show "set (row_cols exact xmin ymin xmax ymax zoom)
            = {(row, col). \<exists>x y. xmin \<le> x \<and> x \<le> xmax \<and> ymin \<le> y \<and> y \<le> ymax
                                 \<and> tile_row exact y zoom = row \<and> tile_column exact x zoom = col}"
    by (intro row_cols_met) simp_all
qed

lemma scaled_example:
  "scaled_x exact 0 2 = 2" "scaled_x exact (EARTH_DIAMETER exact / 4) 2 = 3"
  "scaled_y exact (EARTH_DIAMETER exact / 4) 2 = 1" "scaled_y exact 0 2 = 2"
  using EARTH_DIAMETER_pos by (simp_all add: scaled_x_exact scaled_y_exact field_simps)

text \<open>
  At zoom 2 the box from \<open>(0, 0)\<close> to a quarter of the diameter east and north: columns 2
  and 3, rows 1 and 2. Its south-east corner lies on the boundary of four tiles; its tile
  is row 2, column 3.
\<close>

theorem row_cols_cover_witness:
  "row_cols exact 0 0 (EARTH_DIAMETER exact / 4) (EARTH_DIAMETER exact / 4) 2
     = [(1, 2), (1, 3), (2, 2), (2, 3)]
   \<and> tile_row exact 0 2 = 2 \<and> tile_column exact (EARTH_DIAMETER exact / 4) 2 = 3
   \<and> (2, 3) \<in> set (row_cols exact 0 0 (EARTH_DIAMETER exact / 4) (EARTH_DIAMETER exact / 4) 2)
   \<and> set (row_cols exact 0 0 (EARTH_DIAMETER exact / 4) (EARTH_DIAMETER exact / 4) 2)
       = {(row, col). \<exists>x y. 0 \<le> x \<and> x \<le> EARTH_DIAMETER exact / 4
                            \<and> 0 \<le> y \<and> y \<le> EARTH_DIAMETER exact / 4
                            \<and> tile_row exact y 2 = row \<and> tile_column exact x 2 = col}"
proof -
  have t: "tile_row exact 0 2 = 2" "tile_column exact (EARTH_DIAMETER exact / 4) 2 = 3"
    "tile_column exact 0 2 = 2" "tile_row exact (EARTH_DIAMETER exact / 4) 2 = 1"
    by (simp_all add: tile_row_def tile_column_def scaled_example)
  have b: "(0::real) \<le> EARTH_DIAMETER exact / 4"
    using EARTH_DIAMETER_pos by simp
  have u: "[1 .. 2] = [1, 2::int]" "[2 .. 3] = [2, 3::int]"
    by (simp_all add: upto.simps)
  note c = row_cols_cover [of exact 0 0 "EARTH_DIAMETER exact / 4" "EARTH_DIAMETER exact / 4" 2
      "EARTH_DIAMETER exact / 4" 0]
  have c1: "row_cols exact 0 0 (EARTH_DIAMETER exact / 4) (EARTH_DIAMETER exact / 4) 2
     = [(1, 2), (1, 3), (2, 2), (2, 3)]"
    using c [THEN conjunct1] by (simp add: u scaled_example py_int_def)
  have c2: "(2, 3) \<in> set (row_cols exact 0 0 (EARTH_DIAMETER exact / 4) (EARTH_DIAMETER exact / 4) 2)"
    using c [THEN conjunct2, THEN conjunct1] b
    by (simp add: t rounds_monotonically_exact EARTH_DIAMETER_pos)
  have c3: "set (row_cols exact 0 0 (EARTH_DIAMETER exact / 4) (EARTH_DIAMETER exact / 4) 2)
       = {(row, col). \<exists>x y. 0 \<le> x \<and> x \<le> EARTH_DIAMETER exact / 4
                            \<and> 0 \<le> y \<and> y \<le> EARTH_DIAMETER exact / 4
                            \<and> tile_row exact y 2 = row \<and> tile_column exact x 2 = col}"
    using c [THEN conjunct2, THEN conjunct2] b by (simp add: t)
  show ?thesis by (intro conjI c1 c2 c3 t(1) t(2))
qed

section \<open>Filling the classified layers\<close>

lemma contains_Polygon_type:
  "sublist ''Polygon'' (geojson_name t) \<Longrightarrow> t = wkbPolygon \<or> t = wkbMultiPolygon"
  by (cases t) (simp_all add: sublist_code)

lemma projected_geom_type:
  assumes "reads_named_type lib (geometry f)" and "projected_geom lib f = Inr g"
  shows "geojson_name (GetGeometryType g) = gtype (geometry f)"
  using assms
  by (auto simp: reads_named_type_def projected_geom_def split: option.splits sum.splits)

lemma list_all2_left_member:
  "list_all2 P xs ys \<Longrightarrow> x \<in> set xs \<Longrightarrow> \<exists>y\<in>set ys. P x y"
  by (induction rule: list_all2_induct) auto

lemma appended_polygonal:
  assumes contract: "\<And>j. reads_named_type lib j"
    and app: "appended lib l [] gs fs"
    and l: "type_contains l = ''Polygon''"
    and g: "g \<in> set gs"
  shows "GetGeometryType g = wkbPolygon \<or> GetGeometryType g = wkbMultiPolygon"
proof -
  from app have "list_all2 (\<lambda>g f. projected_geom lib f = Inr g) gs (filter (accepted l) fs)"
    by (simp add: appended_def)
  from list_all2_left_member [OF this g] obtain f
    where f: "accepted l f" and p: "projected_geom lib f = Inr g" by auto
  from f l have "sublist ''Polygon'' (gtype (geometry f))"
    by (simp add: accepted_def geometry_type_test_def)
  with projected_geom_type [OF contract p]
  have "sublist ''Polygon'' (geojson_name (GetGeometryType g))" by simp
  then show ?thesis by (rule contains_Polygon_type)
qed

lemma cairo_call_error: "cairo_call C ctx op \<noteq> Inl NotImplementedError"
  by (simp add: cairo_call_def split: option.splits)

lemma cairo_calls_error: "cairo_calls C ctx ops \<noteq> Inl NotImplementedError"
  by (induction ops arbitrary: ctx) (auto simp: cairo_call_error split: sum.splits)

lemma fill_rings_error: "fill_rings C ctx rings \<noteq> Inl NotImplementedError"
  by (induction rings arbitrary: ctx)
    (auto simp: draw_line_def cairo_call_error cairo_calls_error split: sum.splits)

lemma fill_parts_error: "fill_parts C ctx parts \<noteq> Inl NotImplementedError"
  by (induction parts arbitrary: ctx)
    (auto simp: fill_rings_error cairo_call_error split: sum.splits)

lemma polygonal_cases:
  assumes "GetGeometryType g = wkbPolygon \<or> GetGeometryType g = wkbMultiPolygon"
  obtains rings where "g = Polygon rings" | polygons where "g = MultiPolygon polygons"
  using assms by (cases g) auto

lemma fill_loop_error:
  assumes "\<forall>g\<in>set gs. GetGeometryType g = wkbPolygon \<or> GetGeometryType g = wkbMultiPolygon"
  shows "fill_loop F lib C ctx gs muppx \<noteq> Inl NotImplementedError"
  using assms
proof (induction gs arbitrary: ctx)
  case Nil then show ?case by simp
next
  case (Cons g gs)
  from Cons.prems(1) have "GetGeometryType g = wkbPolygon \<or> GetGeometryType g = wkbMultiPolygon"
    by simp
  then show ?case
  proof (cases rule: polygonal_cases)
    case (1 rings)
    with Cons show ?thesis
      by (auto simp: fill_rings_error cairo_call_error split: sum.splits)
  next
    case (2 polygons)
    with Cons show ?thesis by (auto simp: fill_parts_error split: sum.splits)
  qed
qed

lemma fill_loop_Buffer:
  assumes "\<forall>g\<in>set gs. GetGeometryType g = wkbPolygon \<or> GetGeometryType g = wkbMultiPolygon"
  shows "fill_loop F (lib\<lparr>Buffer := b\<rparr>) C ctx gs muppx = fill_loop F lib C ctx gs muppx"
  using assms
proof (induction gs arbitrary: ctx)
  case Nil then show ?case by simp
next
  case (Cons g gs)
  from Cons.prems have "GetGeometryType g = wkbPolygon \<or> GetGeometryType g = wkbMultiPolygon"
    by simp
  then show ?case
  proof (cases rule: polygonal_cases)
    case (1 rings)
    with Cons show ?thesis by (simp split: sum.splits)
  next
    case (2 polygons)
    with Cons show ?thesis by (simp split: sum.splits)
  qed
qed

lemma get_map_features_appended:
  assumes "get_map_features F lib xmin ymin xmax ymax resolution scale' mapzen_key
             = (Inr (landuse_geoms, water_geoms, roads_geoms), urls)"
  shows "appended lib Landuse [] landuse_geoms (fetched_features lib landuse urls)
       \<and> appended lib Water [] water_geoms (fetched_features lib water urls)
       \<and> appended lib Roads [] roads_geoms (fetched_features lib roads urls)"
proof -
  from assms obtain zoom where
    "tiles_loop lib zoom mapzen_key (row_cols F xmin ymin xmax ymax zoom) ([], [], [])
       = (Inr (landuse_geoms, water_geoms, roads_geoms), urls)"
    by (auto simp: get_map_features_def Let_def split: sum.splits)
  from tiles_loop_appended [OF this] show ?thesis .
qed

text \<open>
  C10: let the library read a GeoJSON geometry with the type that the JSON names and keep
  the type when projecting. Then every geometry that \<open>get_map_features\<close> returns in the
  landuse or the water list is a Polygon or a MultiPolygon, so \<open>fill_geometries\<close> on such
  a list never raises \<open>NotImplementedError\<close> and never buffers a point: its outcome is the
  same whatever \<open>Buffer\<close> is.
\<close>

theorem classified_layers_fill:
  assumes contract: "\<And>j. reads_named_type lib j"
    and layers: "get_map_features F lib xmin ymin xmax ymax resolution scale' mapzen_key
             = (Inr (landuse_geoms, water_geoms, roads_geoms), urls)"
    and which: "geometries = landuse_geoms \<or> geometries = water_geoms"
  shows "(\<forall>g\<in>set geometries. GetGeometryType g = wkbPolygon \<or> GetGeometryType g = wkbMultiPolygon)
       \<and> fill_geometries F lib C ctx geometries muppx rgb \<noteq> Inl NotImplementedError
       \<and> fill_geometries F (lib\<lparr>Buffer := b\<rparr>) C ctx geometries muppx rgb
           = fill_geometries F lib C ctx geometries muppx rgb"
proof -
  have p: "\<forall>g\<in>set geometries. GetGeometryType g = wkbPolygon \<or> GetGeometryType g = wkbMultiPolygon"
  proof
    fix g assume g: "g \<in> set geometries"
    from which show "GetGeometryType g = wkbPolygon \<or> GetGeometryType g = wkbMultiPolygon"
    proof
      assume "geometries = landuse_geoms"
      with g have m: "g \<in> set landuse_geoms" by simp
      from get_map_features_appended [OF layers]
      have a: "appended lib Landuse [] landuse_geoms (fetched_features lib landuse urls)" by simp
      from appended_polygonal [OF contract a _ m] show ?thesis by simp
    next
      assume "geometries = water_geoms"
      with g have m: "g \<in> set water_geoms" by simp
      from get_map_features_appended [OF layers]
      have a: "appended lib Water [] water_geoms (fetched_features lib water urls)" by simp
      from appended_polygonal [OF contract a _ m] show ?thesis by simp
    qed
  qed
  obtain r g' b' where rgb: "rgb = (r, g', b')" by (cases rgb)
  have e: "fill_geometries F lib C ctx geometries muppx rgb \<noteq> Inl NotImplementedError"
    by (auto simp: fill_geometries_def set_source_rgb_def rgb cairo_call_error
        fill_loop_error [OF p] split: sum.splits)
  have i: "fill_geometries F (lib\<lparr>Buffer := b\<rparr>) C ctx geometries muppx rgb
           = fill_geometries F lib C ctx geometries muppx rgb"
    by (simp add: fill_geometries_def rgb fill_loop_Buffer [OF p] split: sum.splits)
  from p e i show ?thesis by blast
qed

lemma example_contract: "reads_named_type (example_library got) j"
  by (simp add: reads_named_type_def example_library_def)

text \<open>The park of the tile above is a Polygon, and filling it raises nothing.\<close>

theorem classified_layers_fill_witness:
  "get_map_features exact (example_library example_tile)
       (- (EARTH_DIAMETER exact / 4)) (- (EARTH_DIAMETER exact / 4)) (EARTH_DIAMETER exact / 4) (EARTH_DIAMETER exact / 4)
       1 (256 / EARTH_DIAMETER exact) None
     = (Inr ([Polygon [[(0, 0), (1, 0), (1, 1)]]], [], []), [(0, 0, 0, None)])
   \<and> GetGeometryType (Polygon [[(0, 0), (1, 0), (1, 1)]]) = wkbPolygon
   \<and> fill_geometries exact (example_library example_tile) example_cairo []
         [Polygon [[(0, 0), (1, 0), (1, 1)]]] 1 (park_fill exact)
       \<noteq> Inl NotImplementedError"
  using classified_layers_fill [OF example_contract example_get_map_features,
      where geometries = "[Polygon [[(0, 0), (1, 0), (1, 1)]]]" and C = example_cairo
        and ctx = "[]" and muppx = 1 and rgb = "park_fill exact"]
    example_get_map_features
  by simp

section \<open>The render pipeline\<close>

subsection \<open>The requests of \<open>get_map_features\<close>\<close>

lemma tiles_loop_requests:
  "tiles_loop lib zoom key rcs acc = (out, urls) \<Longrightarrow>
     prefix urls (map (tile_url zoom key) rcs)
   \<and> (\<forall>u\<in>set urls. isl (fetch_tile lib u) \<longrightarrow> isl out)"
proof (induction rcs arbitrary: acc urls out)
  case Nil
  then show ?case by auto
next
  case (Cons rc rcs)
  obtain row col where rc: "rc = (row, col)" by (cases rc)
  let ?url = "(zoom, col, row, key)"
  show ?case
  proof (cases "fetch_tile lib ?url")
    case (Inl e)
    with Cons.prems rc show ?thesis by (auto simp: tile_url_def)
  next
    case (Inr got)
    show ?thesis
    proof (cases "tile_features lib got acc")
      case (Inl e)
      with Cons.prems rc Inr show ?thesis by (auto simp: tile_url_def)
    next
      case acc': (Inr acc')
      obtain out' urls' where rest: "tiles_loop lib zoom key rcs acc' = (out', urls')"
        by (cases "tiles_loop lib zoom key rcs acc'")
      with Cons.prems rc Inr acc' have eq: "out = out'" "urls = ?url # urls'" by auto
      from Cons.IH [OF rest] Inr show ?thesis
        unfolding eq rc by (auto simp: tile_url_def)
    qed
  qed
qed

lemma distinct_row_cols: "distinct (row_cols F xmin ymin xmax ymax zoom)"
  by (simp add: row_cols_def py_range_def distinct_product Let_def)

lemma inj_on_tile_url: "inj_on (tile_url zoom key) A"
  by (auto simp: inj_on_def tile_url_def)

lemma distinct_prefix: "prefix xs ys \<Longrightarrow> distinct ys \<Longrightarrow> distinct xs"
  by (auto simp: prefix_def)

lemma get_map_features_requests:
  assumes "get_map_features F lib xmin ymin xmax ymax resolution scale' key = (out, urls)"
  shows "distinct urls \<and> (\<forall>u\<in>set urls. isl (fetch_tile lib u) \<longrightarrow> isl out)"
proof (cases "calculate_zoom F scale' resolution")
  case (Inl e)
  with assms show ?thesis by (auto simp: get_map_features_def)
next
  case (Inr z)
  with assms have t: "tiles_loop lib (py_round z) key (row_cols F xmin ymin xmax ymax (py_round z)) ([], [], [])
      = (out, urls)"
    by (simp add: get_map_features_def Let_def)
  have "distinct (map (tile_url (py_round z) key) (row_cols F xmin ymin xmax ymax (py_round z)))"
    by (simp add: distinct_map distinct_row_cols inj_on_tile_url)
  with tiles_loop_requests [OF t] show ?thesis by (blast intro: distinct_prefix)
qed

subsection \<open>The outcome and the world of a render in terms of its stages\<close>

lemma render_requests:
  assumes "render F sys lib C filename_or_url png_filename width resolution mapzen_key w = (outcome, w')"
  shows "\<exists>urls. requested w' = requested w @ urls \<and> distinct urls
           \<and> (\<forall>u\<in>set urls. isl (fetch_tile lib u) \<longrightarrow> isl outcome)"
  using assms unfolding render_def Let_def
  by (auto split: sum.splits prod.splits if_splits write_outcome.splits
      dest!: get_map_features_requests)

lemma render_reaches_write:
  assumes run: "render F sys lib C filename_or_url png_filename width resolution mapzen_key w
                  = (outcome, w')"
  shows "(\<exists>e. outcome = Inl e \<and> png_files w' = png_files w)
       \<or> (\<exists>src lonlats points xmin ymin xmax ymax surface the_layers urls drawn.
             get_local_filename sys filename_or_url = Inr src
           \<and> iterate_file_points (float_of sys) (suffix_of sys src) (open_file sys src) = Inr lonlats
           \<and> project_points sys lonlats = Inr points
           \<and> calculate_bounds F points = Inr (xmin, ymin, xmax, ymax)
           \<and> make_context F C xmin ymin xmax ymax width resolution = Inr (surface :: canvas)
           \<and> get_map_features F lib xmin ymin xmax ymax resolution (hscale surface) mapzen_key
               = (Inr the_layers, urls)
           \<and> map_drawing F lib C surface (xmin, ymin, xmax, ymax) resolution the_layers points
               = Inr drawn
           \<and> requested w' = requested w @ urls
           \<and> (outcome, png_files w')
               = (case write_to_png C png_filename
                         \<lparr>pixel_width = hsize surface, pixel_height = vsize surface, drawing = drawn\<rparr> of
                    Written \<Rightarrow>
                      (Inr (), (png_files w)(png_filename \<mapsto> Whole
                         \<lparr>pixel_width = hsize surface, pixel_height = vsize surface, drawing = drawn\<rparr>))
                  | OpenFailed msg \<Rightarrow> (Inl (CairoError msg), png_files w)
                  | WriteFailed msg \<Rightarrow> (Inl (CairoError msg), (png_files w)(png_filename \<mapsto> Partial))))"
proof (cases "\<exists>e. outcome = Inl e \<and> png_files w' = png_files w")
  case True then show ?thesis by (rule disjI1)
next
  case False
  with run obtain src lonlats points xmin ymin xmax ymax surface l1 l2 l3 urls
      ctx1 ctx2 ctx3 ctx4 ctx5 ctx6 ctx7 ctx8 ctx9 where
    s: "get_local_filename sys filename_or_url = Inr src"
      "iterate_file_points (float_of sys) (suffix_of sys src) (open_file sys src) = Inr lonlats"
      "project_points sys lonlats = Inr points"
      "calculate_bounds F points = Inr (xmin, ymin, xmax, ymax)"
      "make_context F C xmin ymin xmax ymax width resolution = Inr (surface :: canvas)"
      "get_map_features F lib xmin ymin xmax ymax resolution (hscale surface) mapzen_key
         = (Inr (l1, l2, l3), urls)"
    and d: "set_source_rgb C (cr surface) (off_white F) = Inr ctx1"
      "cairo_calls C ctx1 [Rectangle xmin ymax (fsub F xmax xmin) (fsub F ymin ymax), Fill] = Inr ctx2"
      "fill_geometries F lib C ctx2 l1 (fdiv F (real_of_int resolution) (hscale surface)) (park_fill F)
         = Inr ctx3"
      "fill_geometries F lib C ctx3 l2 (fdiv F (real_of_int resolution) (hscale surface)) (water_fill F)
         = Inr ctx4"
      "cairo_call C ctx4 (SetLineWidth (fmul F (1 / 2) (fdiv F (real_of_int resolution) (hscale surface))))
         = Inr ctx5"
      "set_source_rgb C ctx5 (road_stroke F) = Inr ctx6"
      "stroke_geometries C ctx6 l3 = Inr ctx7"
      "cairo_call C ctx7 (SetLineWidth (fmul F (1 / 4) (fdiv F (real_of_int resolution) (hscale surface))))
         = Inr ctx8"
      "draw_points F C ctx8 points = Inr ctx9"
    and e: "requested w' = requested w @ urls"
      "(outcome, png_files w')
         = (case write_to_png C png_filename
                   \<lparr>pixel_width = hsize surface, pixel_height = vsize surface, drawing = ctx9\<rparr> of
              Written \<Rightarrow>
                (Inr (), (png_files w)(png_filename \<mapsto> Whole
                   \<lparr>pixel_width = hsize surface, pixel_height = vsize surface, drawing = ctx9\<rparr>))
            | OpenFailed msg \<Rightarrow> (Inl (CairoError msg), png_files w)
            | WriteFailed msg \<Rightarrow> (Inl (CairoError msg), (png_files w)(png_filename \<mapsto> Partial)))"
    unfolding render_def Let_def
    by (auto split: sum.splits prod.splits if_splits write_outcome.splits)
  have "map_drawing F lib C surface (xmin, ymin, xmax, ymax) resolution (l1, l2, l3) points
          = Inr ctx9"
    by (simp add: map_drawing_def and_then_def Let_def d del: cairo_calls.simps)
  with s e show ?thesis by blast
qed

lemma render_image:
  assumes "render F sys lib C filename_or_url png_filename width resolution mapzen_key w
             = (outcome, w')"
  shows "(\<exists>e. outcome = Inl e \<and> png_files w' = png_files w)
       \<or> (\<exists>img. finished_image F sys lib C filename_or_url width resolution mapzen_key = Inr img
             \<and> (write_to_png C png_filename img = Written \<and> outcome = Inr ()
                  \<and> png_files w' = (png_files w)(png_filename \<mapsto> Whole img)
                \<or> (\<exists>msg. write_to_png C png_filename img = WriteFailed msg
                      \<and> outcome = Inl (CairoError msg)
                      \<and> png_files w' = (png_files w)(png_filename \<mapsto> Partial))))"
  using render_reaches_write [OF assms]
proof
  assume "\<exists>e. outcome = Inl e \<and> png_files w' = png_files w"
  then show ?thesis by (rule disjI1)
next
  assume "\<exists>src lonlats points xmin ymin xmax ymax surface the_layers urls drawn.
             get_local_filename sys filename_or_url = Inr src
           \<and> iterate_file_points (float_of sys) (suffix_of sys src) (open_file sys src) = Inr lonlats
           \<and> project_points sys lonlats = Inr points
           \<and> calculate_bounds F points = Inr (xmin, ymin, xmax, ymax)
           \<and> make_context F C xmin ymin xmax ymax width resolution = Inr (surface :: canvas)
           \<and> get_map_features F lib xmin ymin xmax ymax resolution (hscale surface) mapzen_key
               = (Inr the_layers, urls)
           \<and> map_drawing F lib C surface (xmin, ymin, xmax, ymax) resolution the_layers points
               = Inr drawn
           \<and> requested w' = requested w @ urls
           \<and> (outcome, png_files w')
               = (case write_to_png C png_filename
                         \<lparr>pixel_width = hsize surface, pixel_height = vsize surface, drawing = drawn\<rparr> of
                    Written \<Rightarrow>
                      (Inr (), (png_files w)(png_filename \<mapsto> Whole
                         \<lparr>pixel_width = hsize surface, pixel_height = vsize surface, drawing = drawn\<rparr>))
                  | OpenFailed msg \<Rightarrow> (Inl (CairoError msg), png_files w)
                  | WriteFailed msg \<Rightarrow> (Inl (CairoError msg), (png_files w)(png_filename \<mapsto> Partial)))"
  then obtain src lonlats points xmin ymin xmax ymax surface the_layers urls drawn where
    s: "get_local_filename sys filename_or_url = Inr src"
      "iterate_file_points (float_of sys) (suffix_of sys src) (open_file sys src) = Inr lonlats"
      "project_points sys lonlats = Inr points"
      "calculate_bounds F points = Inr (xmin, ymin, xmax, ymax)"
      "make_context F C xmin ymin xmax ymax width resolution = Inr (surface :: canvas)"
      "get_map_features F lib xmin ymin xmax ymax resolution (hscale surface) mapzen_key
               = (Inr the_layers, urls)"
      "map_drawing F lib C surface (xmin, ymin, xmax, ymax) resolution the_layers points
               = Inr drawn"
    and e: "(outcome, png_files w')
               = (case write_to_png C png_filename
                         \<lparr>pixel_width = hsize surface, pixel_height = vsize surface, drawing = drawn\<rparr> of
                    Written \<Rightarrow>
                      (Inr (), (png_files w)(png_filename \<mapsto> Whole
                         \<lparr>pixel_width = hsize surface, pixel_height = vsize surface, drawing = drawn\<rparr>))
                  | OpenFailed msg \<Rightarrow> (Inl (CairoError msg), png_files w)
                  | WriteFailed msg \<Rightarrow> (Inl (CairoError msg), (png_files w)(png_filename \<mapsto> Partial)))"
    by blast
  let ?img = "\<lparr>pixel_width = hsize surface, pixel_height = vsize surface, drawing = drawn\<rparr>"
  have i: "finished_image F sys lib C filename_or_url width resolution mapzen_key = Inr ?img"
    by (simp add: finished_image_def and_then_def s)
  show ?thesis
  proof (cases "write_to_png C png_filename ?img")
    case Written
    with e have "outcome = Inr ()" "png_files w' = (png_files w)(png_filename \<mapsto> Whole ?img)"
      by simp_all
    with i Written show ?thesis by blast
  next
    case (OpenFailed msg)
    with e have "outcome = Inl (CairoError msg)" "png_files w' = png_files w" by simp_all
    then show ?thesis by blast
  next
    case (WriteFailed msg)
    with e have "outcome = Inl (CairoError msg)"
      "png_files w' = (png_files w)(png_filename \<mapsto> Partial)" by simp_all
    with i WriteFailed show ?thesis by blast
  qed
qed

subsection \<open>Renders of two points\<close>

lemma example_get_local_filename:
  "get_local_filename (example_system h) ''points.csv'' = Inr ''points.csv''"
  by (simp add: get_local_filename_def example_system_def)

lemma example_iterate_file_points:
  "iterate_file_points (float_of (example_system h)) (suffix_of (example_system h) ''points.csv'')
     (open_file (example_system h) ''points.csv'') = Inr [(- 1, - 1), (1, 1)]"
  by (simp add: iterate_file_points_def example_system_def example_rows_def float_cell_def)

lemma example_project_points:
  "project_points (example_system h) [(- 1, - 1), (1, 1)]
     = Inr [(- (25 * EARTH_DIAMETER exact / 104), - (25 * h / 26)),
            (25 * EARTH_DIAMETER exact / 104, 25 * h / 26)]"
  by (simp add: example_system_def)

lemma calculate_bounds_pair:
  assumes "0 < a" and "0 < b"
  shows "calculate_bounds exact [(- a, - b), (a, b)]
           = Inr (- (26 * a / 25), - (26 * b / 25), 26 * a / 25, 26 * b / 25)"
proof -
  have m: "mean exact [- c, c] = 0" for c by (simp add: mean_exact)
  have s: "population_sd exact [- c, c] = c" if "0 < c" for c
  proof -
    have "population_sd exact [- c, c] = sqrt (c\<^sup>2)"
      unfolding population_sd_def variance_exact m by simp
    with that show ?thesis by simp
  qed
  have w: "within_sd exact k [- c, c] = [- c, c]" if "1 \<le> k" "0 < c" for k c
  proof -
    from that have "c \<le> k * c" by simp
    with that have "- c \<le> k * c" "- (k * c) \<le> c" by linarith+
    with \<open>c \<le> k * c\<close> show ?thesis unfolding within_sd_def m s [OF that(2)] by simp
  qed
  have "spec_bounds exact [(- a, - b), (a, b)]
          = (- (26 * a / 25), - (26 * b / 25), 26 * a / 25, 26 * b / 25)"
    using assms by (simp add: spec_bounds_def w Let_def)
  with calculate_bounds_has_bounds [of "[(- a, - b), (a, b)]" exact]
    has_bounds_exact [of "[(- a, - b), (a, b)]"]
  show ?thesis by simp
qed

lemma example_calculate_bounds:
  assumes "0 < h"
  shows "calculate_bounds exact [(- (25 * EARTH_DIAMETER exact / 104), - (25 * h / 26)),
                     (25 * EARTH_DIAMETER exact / 104, 25 * h / 26)]
     = Inr (- (EARTH_DIAMETER exact / 4), - h, EARTH_DIAMETER exact / 4, h)"
  using calculate_bounds_pair [of "25 * EARTH_DIAMETER exact / 104" "25 * h / 26"]
    EARTH_DIAMETER_pos assms by simp

lemma example_make_context:
  assumes "0 < h"
  shows "make_context exact example_cairo (- (EARTH_DIAMETER exact / 4)) (- h)
       (EARTH_DIAMETER exact / 4) h 256 1
     = Inr \<lparr>hsize = 256, vsize = \<lfloor>1024 * h / EARTH_DIAMETER exact\<rfloor>,
            hscale = 512 / EARTH_DIAMETER exact,
            vscale = - (512 / EARTH_DIAMETER exact), hoffset = EARTH_DIAMETER exact / 4,
            voffset = - h,
            cr = [Scale (512 / EARTH_DIAMETER exact) (- (512 / EARTH_DIAMETER exact)),
                  Translate (EARTH_DIAMETER exact / 4) (- h)]\<rparr>"
proof -
  have "0 \<le> \<lfloor>1024 * h / EARTH_DIAMETER exact\<rfloor>"
    using assms EARTH_DIAMETER_pos by simp
  then show ?thesis
  using EARTH_DIAMETER_pos assms
  by (simp add: make_context_def py_int_def Let_def example_cairo_def cairo_call_def field_simps)
qed

lemma calculate_zoom_example: "calculate_zoom exact (512 / EARTH_DIAMETER exact) 1 = Inr 1"
  using EARTH_DIAMETER_pos by (simp add: calculate_zoom_def Let_def)

lemma py_round_1: "py_round 1 = 1"
  by (simp add: py_round_def)

lemma row_cols_world:
  assumes "0 < h" and "h < EARTH_DIAMETER exact / 2"
  shows "row_cols exact (- (EARTH_DIAMETER exact / 4)) (- h) (EARTH_DIAMETER exact / 4) h 1
     = [(0, 0), (0, 1), (1, 0), (1, 1)]"
proof -
  have x: "scaled_x exact (- (EARTH_DIAMETER exact / 4)) 1 = 1 / 2"
    "scaled_x exact (EARTH_DIAMETER exact / 4) 1 = 3 / 2"
    using EARTH_DIAMETER_pos by (simp_all add: scaled_x_exact field_simps)
  have y: "0 \<le> scaled_y exact h 1" "scaled_y exact h 1 < 1"
    "1 \<le> scaled_y exact (- h) 1" "scaled_y exact (- h) 1 < 2"
    using EARTH_DIAMETER_pos assms by (simp_all add: scaled_y_exact field_simps)
  from y have f: "\<lfloor>scaled_y exact h 1\<rfloor> = 0" "\<lfloor>scaled_y exact (- h) 1\<rfloor> = 1"
    by (simp_all add: floor_eq_iff)
  have u: "[0 .. 1] = [0, 1::int]" by (simp add: upto.simps)
  from y(1,3) show ?thesis
    by (simp add: row_cols_indices x f u py_int_def)
qed

lemma example_tiles_empty:
  assumes "0 < h" and "h < EARTH_DIAMETER exact / 2"
  shows "get_map_features exact (example_library empty_tile)
       (- (EARTH_DIAMETER exact / 4)) (- h) (EARTH_DIAMETER exact / 4) h
       1 (512 / EARTH_DIAMETER exact) None
     = (Inr ([], [], []), [(1, 0, 0, None), (1, 1, 0, None), (1, 0, 1, None), (1, 1, 1, None)])"
  by (simp add: get_map_features_def calculate_zoom_example py_round_1 row_cols_world [OF assms]
      tile_features_def example_library_def empty_tile_def)

lemma example_tiles_kindless:
  assumes "0 < h" and "h < EARTH_DIAMETER exact / 2"
  shows "get_map_features exact (example_library kindless_water_tile)
       (- (EARTH_DIAMETER exact / 4)) (- h) (EARTH_DIAMETER exact / 4) h
       1 (512 / EARTH_DIAMETER exact) None
     = (Inl KeyError, [(1, 0, 0, None)])"
  by (simp add: get_map_features_def calculate_zoom_example py_round_1 row_cols_world [OF assms]
      tile_features_def example_library_def kindless_water_tile_def example_feature_def)

lemma example_cairo_call: "cairo_call example_cairo ctx op = Inr (ctx @ [op])"
  by (simp add: cairo_call_def example_cairo_def)

lemma example_write_to_png:
  "write_to_png example_cairo name img
     = (if pixel_width img = 0 \<or> pixel_height img = 0
        then WriteFailed ''error while writing to output stream'' else Written)"
  by (simp add: example_cairo_def)

lemmas example_stages =
  example_get_local_filename example_iterate_file_points example_project_points
  example_calculate_bounds example_make_context calculate_zoom_example

lemma example_render_kindless:
  assumes "0 < h" and "h < EARTH_DIAMETER exact / 2"
  shows "example_render h kindless_water_tile
     = (Inl KeyError, \<lparr>requested = [(1, 0, 0, None)], png_files = Map.empty\<rparr>)"
  using EARTH_DIAMETER_pos assms
  by (simp add: example_render_def render_def example_stages example_tiles_kindless Let_def
      set_source_rgb_def example_cairo_call off_white_def
      del: project_points.simps)

lemma example_render_empty:
  assumes "0 < h" and "h < EARTH_DIAMETER exact / 2"
  shows "fst (example_render h empty_tile)
           = (if \<lfloor>1024 * h / EARTH_DIAMETER exact\<rfloor> = 0
              then Inl (CairoError ''error while writing to output stream'') else Inr ())"
    and "requested (snd (example_render h empty_tile))
           = [(1, 0, 0, None), (1, 1, 0, None), (1, 0, 1, None), (1, 1, 1, None)]"
    and "\<lfloor>1024 * h / EARTH_DIAMETER exact\<rfloor> = 0 \<Longrightarrow>
           png_files (snd (example_render h empty_tile)) = [''out.png'' \<mapsto> Partial]"
    and "png_size (png_files (snd (example_render h empty_tile)) ''out.png'')
           = (if \<lfloor>1024 * h / EARTH_DIAMETER exact\<rfloor> = 0 then None
              else Some (256, \<lfloor>1024 * h / EARTH_DIAMETER exact\<rfloor>))"
  using EARTH_DIAMETER_pos assms
  by (simp_all add: example_render_def render_def example_stages example_tiles_empty
      fill_geometries_def park_fill_def water_fill_def Let_def
      set_source_rgb_def example_cairo_call example_write_to_png off_white_def road_stroke_def
      point_fill_def black_def
      del: project_points.simps)

lemma example_finished_kindless:
  assumes "0 < h" and "h < EARTH_DIAMETER exact / 2"
  shows "finished_image exact (example_system h) (example_library kindless_water_tile)
           example_cairo ''points.csv'' 256 1 None = Inl KeyError"
  using assms
  by (simp add: finished_image_def and_then_def example_stages example_tiles_kindless
      del: project_points.simps)

text \<open>
  C7, as the code has it. Whatever a render does: (1) when a stage of the pipeline raises
  (source resolution, reading, projection, bounds, canvas, a tile fetch or the reading of a
  tile, classification, drawing), the render ends in an exception and the PNG files are as
  they were before; (2) when the render ends in an exception, the PNG files are as they
  were before, or else every stage has returned, \<open>write_to_png\<close> was called on the finished
  image and has raised after opening the file, which leaves a partial file; (3) when it
  ends normally, every stage has returned, and the one file written holds the finished
  image whole; (4) it requests no tile twice, and when the fetch of a requested tile fails
  the render ends in an exception. Skipped CSV rows are no failure: they are inside
  \<open>iterate_file_points\<close>.
\<close>

theorem render_aborts_before_png:
  assumes "render F sys lib C filename_or_url png_filename width resolution mapzen_key w
             = (outcome, w')"
  shows "(\<forall>e. finished_image F sys lib C filename_or_url width resolution mapzen_key = Inl e
             \<longrightarrow> isl outcome \<and> png_files w' = png_files w)
       \<and> (\<forall>e. outcome = Inl e \<longrightarrow>
             png_files w' = png_files w
           \<or> (\<exists>img msg.
                 finished_image F sys lib C filename_or_url width resolution mapzen_key = Inr img
               \<and> write_to_png C png_filename img = WriteFailed msg
               \<and> e = CairoError msg
               \<and> png_files w' = (png_files w)(png_filename \<mapsto> Partial)))
       \<and> (outcome = Inr () \<longrightarrow>
            (\<exists>img.
                 finished_image F sys lib C filename_or_url width resolution mapzen_key = Inr img
               \<and> write_to_png C png_filename img = Written
               \<and> png_files w' = (png_files w)(png_filename \<mapsto> Whole img)))
       \<and> (\<exists>urls. requested w' = requested w @ urls \<and> distinct urls
              \<and> (\<forall>u\<in>set urls. isl (fetch_tile lib u) \<longrightarrow> isl outcome))"
proof (intro conjI allI impI)
  fix e
  assume "finished_image F sys lib C filename_or_url width resolution mapzen_key = Inl e"
  with render_image [OF assms] have "\<exists>e. outcome = Inl e \<and> png_files w' = png_files w"
    by auto
  then show "isl outcome" and "png_files w' = png_files w" by auto
next
  fix e assume "outcome = Inl e"
  with render_image [OF assms]
  show "png_files w' = png_files w
           \<or> (\<exists>img msg.
                 finished_image F sys lib C filename_or_url width resolution mapzen_key = Inr img
               \<and> write_to_png C png_filename img = WriteFailed msg
               \<and> e = CairoError msg
               \<and> png_files w' = (png_files w)(png_filename \<mapsto> Partial))"
    by auto
next
  assume "outcome = Inr ()"
  with render_image [OF assms]
  show "\<exists>img.
                 finished_image F sys lib C filename_or_url width resolution mapzen_key = Inr img
               \<and> write_to_png C png_filename img = Written
               \<and> png_files w' = (png_files w)(png_filename \<mapsto> Whole img)"
    by auto
next
  from assms show "\<exists>urls. requested w' = requested w @ urls \<and> distinct urls
              \<and> (\<forall>u\<in>set urls. isl (fetch_tile lib u) \<longrightarrow> isl outcome)"
    by (rule render_requests)
qed

text \<open>
  The render of the two points over empty tiles, the padded box a square: it ends normally
  after four distinct requests, and the file holds the finished image, 256 by 256 pixels.
  Over tiles with a water polygon without a kind the pipeline raises \<open>KeyError\<close>, and so
  does the render, leaving no file.
\<close>

theorem render_aborts_before_png_witness:
  "fst (example_render (EARTH_DIAMETER exact / 4) empty_tile) = Inr ()
   \<and> requested (snd (example_render (EARTH_DIAMETER exact / 4) empty_tile))
       = [(1, 0, 0, None), (1, 1, 0, None), (1, 0, 1, None), (1, 1, 1, None)]
   \<and> distinct (requested (snd (example_render (EARTH_DIAMETER exact / 4) empty_tile)))
   \<and> (\<exists>img. finished_image exact (example_system (EARTH_DIAMETER exact / 4))
                 (example_library empty_tile) example_cairo ''points.csv'' 256 1 None = Inr img
            \<and> write_to_png example_cairo ''out.png'' img = Written
            \<and> png_files (snd (example_render (EARTH_DIAMETER exact / 4) empty_tile))
                = [''out.png'' \<mapsto> Whole img]
            \<and> pixel_width img = 256 \<and> pixel_height img = 256)
   \<and> finished_image exact (example_system (EARTH_DIAMETER exact / 4))
         (example_library kindless_water_tile) example_cairo ''points.csv'' 256 1 None
       = Inl KeyError
   \<and> isl (fst (example_render (EARTH_DIAMETER exact / 4) kindless_water_tile))
   \<and> png_files (snd (example_render (EARTH_DIAMETER exact / 4) kindless_water_tile)) = Map.empty"
proof -
  let ?h = "EARTH_DIAMETER exact / 4"
  have h: "0 < ?h" "?h < EARTH_DIAMETER exact / 2"
    using EARTH_DIAMETER_pos by simp_all
  have v: "\<lfloor>1024 * ?h / EARTH_DIAMETER exact\<rfloor> = 256"
    using EARTH_DIAMETER_pos by simp
  note r = example_render_empty [OF h, unfolded v]
  have ok: "fst (example_render ?h empty_tile) = Inr ()" using r(1) by simp
  have size: "png_size (png_files (snd (example_render ?h empty_tile)) ''out.png'') = Some (256, 256)"
    using r(4) by simp
  have run: "render exact (example_system ?h) (example_library empty_tile) example_cairo
       ''points.csv'' ''out.png'' 256 1 None \<lparr>requested = [], png_files = Map.empty\<rparr>
     = (fst (example_render ?h empty_tile), snd (example_render ?h empty_tile))"
    by (simp add: example_render_def)
  note t = render_aborts_before_png [OF run]
  from t have d: "distinct (requested (snd (example_render ?h empty_tile)))" by auto
  from t ok obtain img where
    i: "finished_image exact (example_system ?h) (example_library empty_tile) example_cairo
          ''points.csv'' 256 1 None = Inr img"
      "write_to_png example_cairo ''out.png'' img = Written"
      "png_files (snd (example_render ?h empty_tile)) = [''out.png'' \<mapsto> Whole img]"
    by auto
  from size i(3) have px: "pixel_width img = 256" "pixel_height img = 256" by simp_all
  have k: "finished_image exact (example_system ?h) (example_library kindless_water_tile)
             example_cairo ''points.csv'' 256 1 None = Inl KeyError"
    using h by (rule example_finished_kindless)
  have run': "render exact (example_system ?h) (example_library kindless_water_tile) example_cairo
       ''points.csv'' ''out.png'' 256 1 None \<lparr>requested = [], png_files = Map.empty\<rparr>
     = (fst (example_render ?h kindless_water_tile), snd (example_render ?h kindless_water_tile))"
    by (simp add: example_render_def)
  from render_aborts_before_png [OF run'] k
  have f: "isl (fst (example_render ?h kindless_water_tile))"
    "png_files (snd (example_render ?h kindless_water_tile)) = Map.empty"
    by simp_all
  from ok r(2) d i px k f show ?thesis by blast
qed

text \<open>
  The claim as written excludes a partial file. The two points with the padded box a
  thousand times as wide as high: the surface is 256 pixels wide and \<open>int(0.256) = 0\<close>
  high, every stage returns, and \<open>write_to_png\<close>, called last, raises on the image without
  pixels after it has opened \<open>out.png\<close>: the render ends in an exception and leaves the
  file, not a whole image.
\<close>

theorem render_aborts_before_png_counterexample:
  "fst (example_render (EARTH_DIAMETER exact / 4000) empty_tile)
     = Inl (CairoError ''error while writing to output stream'')
   \<and> png_files (snd (example_render (EARTH_DIAMETER exact / 4000) empty_tile)) ''out.png''
       = Some Partial"
proof -
  let ?h = "EARTH_DIAMETER exact / 4000"
  have h: "0 < ?h" "?h < EARTH_DIAMETER exact / 2"
    using EARTH_DIAMETER_pos by simp_all
  have v: "\<lfloor>1024 * ?h / EARTH_DIAMETER exact\<rfloor> = 0"
    using EARTH_DIAMETER_pos by simp
  from example_render_empty(1,3) [OF h] v show ?thesis by simp
qed

section \<open>The size of the PNG\<close>

lemma make_context_surface:
  assumes "make_context F C left bottom right top' width resolution = Inr surface"
  shows "hsize surface = resolution * width"
    and "vsize surface
           = py_int (fdiv F (real_of_int (resolution * width))
                       (fdiv F (fsub F right left) (fsub F top' bottom)))"
  using assms unfolding make_context_def Let_def
  by (auto split: if_splits option.splits sum.splits)

text \<open>
  C6, as the code has it: when a render ends normally, the PNG file it has written is
  \<open>resolution * width\<close> pixels wide and \<open>int(resolution * width / aspect)\<close> pixels high,
  where \<open>aspect\<close> is the aspect ratio of the box that \<open>calculate_bounds\<close> returned for the
  projected points of the file, quotient and ratio taken in the float arithmetic of the
  machine, and \<open>int\<close> truncates toward zero: it does not round.
\<close>

theorem render_png_size:
  assumes "render F sys lib C filename_or_url png_filename width resolution mapzen_key w
             = (Inr (), w')"
  shows "\<exists>src lonlats points box drawn.
           get_local_filename sys filename_or_url = Inr src
         \<and> iterate_file_points (float_of sys) (suffix_of sys src) (open_file sys src) = Inr lonlats
         \<and> project_points sys lonlats = Inr points
         \<and> calculate_bounds F points = Inr box
         \<and> png_files w' png_filename
             = Some (Whole \<lparr>pixel_width = resolution * width,
                            pixel_height = py_int (fdiv F (real_of_int (resolution * width))
                                                     (aspect_ratio F box)),
                            drawing = drawn\<rparr>)"
proof -
  from render_reaches_write [OF assms]
  obtain src lonlats points xmin ymin xmax ymax surface drawn where
    s: "get_local_filename sys filename_or_url = Inr src"
      "iterate_file_points (float_of sys) (suffix_of sys src) (open_file sys src) = Inr lonlats"
      "project_points sys lonlats = Inr points"
      "calculate_bounds F points = Inr (xmin, ymin, xmax, ymax)"
    and m: "make_context F C xmin ymin xmax ymax width resolution = Inr (surface :: canvas)"
    and e: "(Inr () :: error + unit, png_files w')
               = (case write_to_png C png_filename
                         \<lparr>pixel_width = hsize surface, pixel_height = vsize surface, drawing = drawn\<rparr> of
                    Written \<Rightarrow>
                      (Inr (), (png_files w)(png_filename \<mapsto> Whole
                         \<lparr>pixel_width = hsize surface, pixel_height = vsize surface, drawing = drawn\<rparr>))
                  | OpenFailed msg \<Rightarrow> (Inl (CairoError msg), png_files w)
                  | WriteFailed msg \<Rightarrow> (Inl (CairoError msg), (png_files w)(png_filename \<mapsto> Partial)))"
    by auto
  from e have "png_files w' png_filename
      = Some (Whole \<lparr>pixel_width = hsize surface, pixel_height = vsize surface, drawing = drawn\<rparr>)"
    by (auto split: write_outcome.splits)
  then have "png_files w' png_filename
             = Some (Whole \<lparr>pixel_width = resolution * width,
                            pixel_height = py_int (fdiv F (real_of_int (resolution * width))
                                                     (aspect_ratio F (xmin, ymin, xmax, ymax))),
                            drawing = drawn\<rparr>)"
    by (simp add: make_context_surface [OF m] aspect_ratio_def)
  with s show ?thesis by blast
qed

text \<open>
  The two points with the padded box three times as wide as it is twice high: the aspect
  ratio is \<open>3/2\<close>, and the PNG is 256 pixels wide and \<open>int(170.67) = 170\<close> high.
\<close>

theorem render_png_size_witness:
  "fst (example_render (EARTH_DIAMETER exact / 6) empty_tile) = Inr ()
   \<and> calculate_bounds exact
         [(- (25 * EARTH_DIAMETER exact / 104), - (25 * (EARTH_DIAMETER exact / 6) / 26)),
          (25 * EARTH_DIAMETER exact / 104, 25 * (EARTH_DIAMETER exact / 6) / 26)]
       = Inr (- (EARTH_DIAMETER exact / 4), - (EARTH_DIAMETER exact / 6),
              EARTH_DIAMETER exact / 4, EARTH_DIAMETER exact / 6)
   \<and> aspect_ratio exact (- (EARTH_DIAMETER exact / 4), - (EARTH_DIAMETER exact / 6),
                         EARTH_DIAMETER exact / 4, EARTH_DIAMETER exact / 6) = 3 / 2
   \<and> png_size (png_files (snd (example_render (EARTH_DIAMETER exact / 6) empty_tile)) ''out.png'')
       = Some (256, 170)"
proof -
  let ?h = "EARTH_DIAMETER exact / 6"
  let ?box = "(- (EARTH_DIAMETER exact / 4), - ?h, EARTH_DIAMETER exact / 4, ?h)"
  have h: "0 < ?h" "?h < EARTH_DIAMETER exact / 2"
    using EARTH_DIAMETER_pos by simp_all
  have v: "\<lfloor>1024 * ?h / EARTH_DIAMETER exact\<rfloor> = 170"
    using EARTH_DIAMETER_pos by (simp add: floor_eq_iff)
  have ok: "fst (example_render ?h empty_tile) = Inr ()"
    using example_render_empty(1) [OF h] v by simp
  then have run: "render exact (example_system ?h) (example_library empty_tile) example_cairo
       ''points.csv'' ''out.png'' 256 1 None \<lparr>requested = [], png_files = Map.empty\<rparr>
     = (Inr (), snd (example_render ?h empty_tile))"
    by (simp add: example_render_def prod_eq_iff)
  have a: "aspect_ratio exact ?box = 3 / 2"
    using EARTH_DIAMETER_pos by (simp add: aspect_ratio_def)
  have b: "calculate_bounds exact
         [(- (25 * EARTH_DIAMETER exact / 104), - (25 * ?h / 26)),
          (25 * EARTH_DIAMETER exact / 104, 25 * ?h / 26)] = Inr ?box"
    by (rule example_calculate_bounds [OF h(1)])
  from render_png_size [OF run] obtain src lonlats points box drawn where
    g: "get_local_filename (example_system ?h) ''points.csv'' = Inr src"
    and i: "iterate_file_points (float_of (example_system ?h)) (suffix_of (example_system ?h) src)
              (open_file (example_system ?h) src) = Inr lonlats"
    and pr: "project_points (example_system ?h) lonlats = Inr points"
    and c: "calculate_bounds exact points = Inr box"
    and p: "png_files (snd (example_render ?h empty_tile)) ''out.png''
             = Some (Whole \<lparr>pixel_width = 1 * 256,
                            pixel_height = py_int (fdiv exact (real_of_int (1 * 256))
                                                     (aspect_ratio exact box)),
                            drawing = drawn\<rparr>)"
    by blast
  from g have src: "src = ''points.csv''"
    by (simp add: example_get_local_filename)
  from i have ll: "lonlats = [(- 1, - 1), (1, 1)]"
    unfolding src by (simp add: example_iterate_file_points)
  from pr [unfolded ll, symmetric] example_project_points [of ?h]
  have "Inr points = (Inr [(- (25 * EARTH_DIAMETER exact / 104), - (25 * ?h / 26)),
          (25 * EARTH_DIAMETER exact / 104, 25 * ?h / 26)] :: error + point list)"
    by (rule trans)
  then have pts: "points = [(- (25 * EARTH_DIAMETER exact / 104), - (25 * ?h / 26)),
          (25 * EARTH_DIAMETER exact / 104, 25 * ?h / 26)]"
    by (simp only: sum.inject)
  from c [unfolded pts, symmetric] b have "Inr box = (Inr ?box :: error + _)"
    by (rule trans)
  then have box: "box = ?box" by (simp only: sum.inject)
  from p [unfolded box a]
  have "png_size (png_files (snd (example_render ?h empty_tile)) ''out.png'')
       = Some (256, 170)"
    by (simp add: py_int_def floor_eq_iff)
  with ok b a show ?thesis by blast
qed

text \<open>
  The claim as written rounds. The two points with the padded box three times as wide as
  it is five times high: the aspect ratio is \<open>3/5\<close>, \<open>256 / (3/5) = 426.67\<close>, and the PNG is
  426 pixels high, where \<open>round\<close> gives 427.
\<close>

theorem render_png_size_counterexample:
  "fst (example_render (5 * EARTH_DIAMETER exact / 12) empty_tile) = Inr ()
   \<and> calculate_bounds exact
         [(- (25 * EARTH_DIAMETER exact / 104), - (25 * (5 * EARTH_DIAMETER exact / 12) / 26)),
          (25 * EARTH_DIAMETER exact / 104, 25 * (5 * EARTH_DIAMETER exact / 12) / 26)]
       = Inr (- (EARTH_DIAMETER exact / 4), - (5 * EARTH_DIAMETER exact / 12),
              EARTH_DIAMETER exact / 4, 5 * EARTH_DIAMETER exact / 12)
   \<and> aspect_ratio exact (- (EARTH_DIAMETER exact / 4), - (5 * EARTH_DIAMETER exact / 12),
                         EARTH_DIAMETER exact / 4, 5 * EARTH_DIAMETER exact / 12) = 3 / 5
   \<and> png_size (png_files (snd (example_render (5 * EARTH_DIAMETER exact / 12) empty_tile))
         ''out.png'')
       = Some (256, 426)
   \<and> py_round (256 / (3 / 5)) = 427"
proof -
  let ?h = "5 * EARTH_DIAMETER exact / 12"
  have h: "0 < ?h" "?h < EARTH_DIAMETER exact / 2"
    using EARTH_DIAMETER_pos by simp_all
  have v: "\<lfloor>1024 * ?h / EARTH_DIAMETER exact\<rfloor> = 426"
    using EARTH_DIAMETER_pos by (simp add: floor_eq_iff)
  have ok: "fst (example_render ?h empty_tile) = Inr ()"
    using example_render_empty(1) [OF h] v by simp
  have sz: "png_size (png_files (snd (example_render ?h empty_tile)) ''out.png'') = Some (256, 426)"
    using example_render_empty(4) [OF h] v by simp
  have a: "aspect_ratio exact (- (EARTH_DIAMETER exact / 4), - ?h, EARTH_DIAMETER exact / 4, ?h)
             = 3 / 5"
    using EARTH_DIAMETER_pos by (simp add: aspect_ratio_def)
  have b: "calculate_bounds exact
         [(- (25 * EARTH_DIAMETER exact / 104), - (25 * ?h / 26)),
          (25 * EARTH_DIAMETER exact / 104, 25 * ?h / 26)]
       = Inr (- (EARTH_DIAMETER exact / 4), - ?h, EARTH_DIAMETER exact / 4, ?h)"
    by (rule example_calculate_bounds [OF h(1)])
  have f: "\<lfloor>256 / (3 / 5) :: real\<rfloor> = 426" by (simp add: floor_eq_iff)
  have r: "py_round (256 / (3 / 5)) = 427"
    unfolding py_round_def Let_def f by simp
  from ok b a sz r show ?thesis by blast
qed

section \<open>A feature without a kind\<close>

lemma landuse_loop_append:
  "landuse_loop lib (pre @ rest) acc
     = (case landuse_loop lib pre acc of Inl e \<Rightarrow> Inl e | Inr a \<Rightarrow> landuse_loop lib rest a)"
  by (induction pre arbitrary: acc) (simp_all split: sum.splits)

lemma water_loop_append:
  "water_loop lib (pre @ rest) acc
     = (case water_loop lib pre acc of Inl e \<Rightarrow> Inl e | Inr a \<Rightarrow> water_loop lib rest a)"
  by (induction pre arbitrary: acc) (simp_all split: sum.splits option.splits)

lemma roads_loop_append:
  "roads_loop lib (pre @ rest) acc
     = (case roads_loop lib pre acc of Inl e \<Rightarrow> Inl e | Inr a \<Rightarrow> roads_loop lib rest a)"
  by (induction pre arbitrary: acc) (simp_all split: sum.splits option.splits)

lemma water_loop_kinds:
  assumes "water_loop lib fs acc = Inr out" and "f \<in> set fs"
    and "sublist ''Polygon'' (gtype (geometry f))"
  shows "properties f ''kind'' \<noteq> None"
proof
  assume n: "properties f ''kind'' = None"
  from assms(2) obtain pre post where "fs = pre @ f # post" by (auto dest: split_list)
  with assms(1,3) n show False by (simp add: water_loop_append split: sum.splits)
qed

lemma roads_loop_kinds:
  assumes "roads_loop lib fs acc = Inr out" and "f \<in> set fs"
    and "sublist ''LineString'' (gtype (geometry f))"
  shows "properties f ''kind'' \<noteq> None"
proof
  assume n: "properties f ''kind'' = None"
  from assms(2) obtain pre post where "fs = pre @ f # post" by (auto dest: split_list)
  with assms(1,3) n show False by (simp add: roads_loop_append split: sum.splits)
qed

lemma tile_features_kinds:
  assumes "tile_features lib got acc = Inr acc'"
  shows "\<not> kindless (collection_of water got) (collection_of roads got) f"
proof -
  obtain l w r where acc: "acc = (l, w, r)" by (cases acc)
  from assms obtain fs2 w' fs3 r' where
    "water got = Some fs2" "water_loop lib fs2 w = Inr w'"
    "roads got = Some fs3" "roads_loop lib fs3 r = Inr r'"
    unfolding acc tile_features_def by (auto split: option.splits sum.splits)
  then show ?thesis
    by (auto simp: kindless_def collection_of_def dest: water_loop_kinds roads_loop_kinds)
qed

lemma kindless_append:
  "kindless (ws1 @ ws2) (rs1 @ rs2) f = (kindless ws1 rs1 f \<or> kindless ws2 rs2 f)"
  by (auto simp: kindless_def)

lemma tiles_loop_kinds:
  "tiles_loop lib zoom key rcs acc = (Inr out, urls) \<Longrightarrow>
     \<not> kindless (fetched_features lib water urls) (fetched_features lib roads urls) f"
proof (induction rcs arbitrary: acc urls)
  case Nil
  then show ?case by (simp add: fetched_features_def kindless_def)
next
  case (Cons rc rcs)
  obtain row col where rc: "rc = (row, col)" by (cases rc)
  let ?url = "(zoom, col, row, key)"
  from Cons.prems rc obtain got acc1 urls' where
    got: "fetch_tile lib ?url = Inr got"
    and tf: "tile_features lib got acc = Inr acc1"
    and rest: "tiles_loop lib zoom key rcs acc1 = (Inr out, urls')"
    and urls: "urls = ?url # urls'"
    by (auto simp: Let_def split: sum.splits prod.splits)
  from tile_features_kinds [OF tf] Cons.IH [OF rest]
  show ?case
    unfolding urls fetched_features_Cons [OF got] kindless_append by simp
qed

lemma get_map_features_kinds:
  assumes "get_map_features F lib xmin ymin xmax ymax resolution scale' mapzen_key
             = (Inr layers, urls)"
  shows "\<not> kindless (fetched_features lib water urls) (fetched_features lib roads urls) f"
proof -
  from assms obtain zoom where
    "tiles_loop lib zoom mapzen_key (row_cols F xmin ymin xmax ymax zoom) ([], [], [])
       = (Inr layers, urls)"
    by (auto simp: get_map_features_def Let_def split: sum.splits)
  then show ?thesis by (rule tiles_loop_kinds)
qed

lemma render_kinds:
  assumes run: "render F sys lib C filename_or_url png_filename width resolution mapzen_key w
                  = (outcome, w')"
    and req: "requested w' = requested w @ urls"
    and bad: "kindless (fetched_features lib water urls) (fetched_features lib roads urls) f"
  shows "(\<exists>e. outcome = Inl e) \<and> png_files w' = png_files w"
  using render_reaches_write [OF run]
proof
  assume "\<exists>e. outcome = Inl e \<and> png_files w' = png_files w"
  then show ?thesis by blast
next
  assume "\<exists>src lonlats points xmin ymin xmax ymax surface the_layers urls drawn.
             get_local_filename sys filename_or_url = Inr src
           \<and> iterate_file_points (float_of sys) (suffix_of sys src) (open_file sys src) = Inr lonlats
           \<and> project_points sys lonlats = Inr points
           \<and> calculate_bounds F points = Inr (xmin, ymin, xmax, ymax)
           \<and> make_context F C xmin ymin xmax ymax width resolution = Inr (surface :: canvas)
           \<and> get_map_features F lib xmin ymin xmax ymax resolution (hscale surface) mapzen_key
               = (Inr the_layers, urls)
           \<and> map_drawing F lib C surface (xmin, ymin, xmax, ymax) resolution the_layers points
               = Inr drawn
           \<and> requested w' = requested w @ urls
           \<and> (outcome, png_files w')
               = (case write_to_png C png_filename
                         \<lparr>pixel_width = hsize surface, pixel_height = vsize surface, drawing = drawn\<rparr> of
                    Written \<Rightarrow>
                      (Inr (), (png_files w)(png_filename \<mapsto> Whole
                         \<lparr>pixel_width = hsize surface, pixel_height = vsize surface, drawing = drawn\<rparr>))
                  | OpenFailed msg \<Rightarrow> (Inl (CairoError msg), png_files w)
                  | WriteFailed msg \<Rightarrow> (Inl (CairoError msg), (png_files w)(png_filename \<mapsto> Partial)))"
  then obtain xmin ymin xmax ymax surface the_layers urls' where
    g: "get_map_features F lib xmin ymin xmax ymax resolution (hscale (surface :: canvas)) mapzen_key
          = (Inr the_layers, urls')"
    and r: "requested w' = requested w @ urls'"
    by blast
  from r req have "urls' = urls" by simp
  with get_map_features_kinds [OF g] bad show ?thesis by simp
qed

text \<open>
  C9: let a feature have no \<open>kind\<close> key. If its geometry type contains \<open>Polygon\<close>, the
  water loop raises on it: \<open>KeyError\<close>, unless a feature before it has raised already;
  likewise the roads loop if the type contains \<open>LineString\<close>. The landuse loop passes it
  over: the outcome is that of the list without it. And a render that has fetched a tile
  with such a feature among its water or roads features ends in an exception and writes no
  PNG.
\<close>

theorem missing_kind_asymmetry:
  assumes "properties f ''kind'' = None"
  shows "(sublist ''Polygon'' (gtype (geometry f)) \<longrightarrow>
            water_loop lib (pre @ f # post) acc
              = (case water_loop lib pre acc of Inl e \<Rightarrow> Inl e | Inr a \<Rightarrow> Inl KeyError))
       \<and> (sublist ''LineString'' (gtype (geometry f)) \<longrightarrow>
            roads_loop lib (pre @ f # post) acc
              = (case roads_loop lib pre acc of Inl e \<Rightarrow> Inl e | Inr a \<Rightarrow> Inl KeyError))
       \<and> landuse_loop lib (pre @ f # post) acc = landuse_loop lib (pre @ post) acc
       \<and> (render F sys lib C filename_or_url png_filename width resolution mapzen_key w = (outcome, w')
            \<and> requested w' = requested w @ urls
            \<and> (f \<in> set (fetched_features lib water urls) \<and> sublist ''Polygon'' (gtype (geometry f))
               \<or> f \<in> set (fetched_features lib roads urls)
                 \<and> sublist ''LineString'' (gtype (geometry f)))
          \<longrightarrow> (\<exists>e. outcome = Inl e) \<and> png_files w' = png_files w)"
proof (intro conjI impI)
  assume "sublist ''Polygon'' (gtype (geometry f))"
  with assms show "water_loop lib (pre @ f # post) acc
              = (case water_loop lib pre acc of Inl e \<Rightarrow> Inl e | Inr a \<Rightarrow> Inl KeyError)"
    by (simp add: water_loop_append split: sum.splits)
next
  assume "sublist ''LineString'' (gtype (geometry f))"
  with assms show "roads_loop lib (pre @ f # post) acc
              = (case roads_loop lib pre acc of Inl e \<Rightarrow> Inl e | Inr a \<Rightarrow> Inl KeyError)"
    by (simp add: roads_loop_append split: sum.splits)
next
  from assms show "landuse_loop lib (pre @ f # post) acc = landuse_loop lib (pre @ post) acc"
    by (simp add: landuse_loop_append py_in_None split: sum.splits)
next
  assume a: "render F sys lib C filename_or_url png_filename width resolution mapzen_key w = (outcome, w')
            \<and> requested w' = requested w @ urls
            \<and> (f \<in> set (fetched_features lib water urls) \<and> sublist ''Polygon'' (gtype (geometry f))
               \<or> f \<in> set (fetched_features lib roads urls)
                 \<and> sublist ''LineString'' (gtype (geometry f)))"
  with assms have k: "kindless (fetched_features lib water urls) (fetched_features lib roads urls) f"
    by (simp add: kindless_def)
  from a render_kinds [OF _ _ k] show "\<exists>e. outcome = Inl e" and "png_files w' = png_files w"
    by blast+
qed

text \<open>
  A polygon without a kind: the water loop raises \<open>KeyError\<close>, the landuse loop returns
  its list unchanged, and the render over tiles holding it as a water feature aborts with
  \<open>KeyError\<close> after one request, no PNG written.
\<close>

theorem missing_kind_asymmetry_witness:
  "water_loop (example_library kindless_water_tile) [example_feature ''Polygon'' None] []
     = Inl KeyError
   \<and> landuse_loop (example_library kindless_water_tile) [example_feature ''Polygon'' None] []
     = Inr []
   \<and> example_render (EARTH_DIAMETER exact / 4) kindless_water_tile
     = (Inl KeyError, \<lparr>requested = [(1, 0, 0, None)], png_files = Map.empty\<rparr>)
   \<and> example_feature ''Polygon'' None
       \<in> set (fetched_features (example_library kindless_water_tile) water [(1, 0, 0, None)])"
proof -
  let ?f = "example_feature ''Polygon'' None :: unit feature"
  let ?h = "EARTH_DIAMETER exact / 4"
  have h: "0 < ?h" "?h < EARTH_DIAMETER exact / 2"
    using EARTH_DIAMETER_pos by simp_all
  have n: "properties ?f ''kind'' = None" and p: "sublist ''Polygon'' (gtype (geometry ?f))"
    by (simp_all add: example_feature_def)
  have m: "?f \<in> set (fetched_features (example_library kindless_water_tile) water [(1, 0, 0, None)])"
    by (simp add: fetched_features_def example_library_def kindless_water_tile_def)
  from missing_kind_asymmetry [OF n, where lib = "example_library kindless_water_tile"
      and pre = "[]" and post = "[]" and acc = "[]"] p
  have w: "water_loop (example_library kindless_water_tile) [?f] [] = Inl KeyError"
    and l: "landuse_loop (example_library kindless_water_tile) [?f] [] = Inr []"
    by simp_all
  show ?thesis by (intro conjI w l m example_render_kindless [OF h])
qed

end
